theory Spec2Isabelle
  imports Main
begin

section \<open>Python values, exceptions and effects\<close>

text \<open>
  The two scripts of \<^verbatim>\<open>04-LearningPath\<close> are linear sequences of calls to the identity
  provider, of prints and of file writes. Every Python function is embedded as a function
  from the interpreter state to a result and the next state; a result is either a raised
  exception (\<open>Inl\<close>) or the returned value (\<open>Inr\<close>).

  An exception carries what the scripts read from it: for botocore's \<open>ClientError\<close> the
  fields \<open>e.response['Error']['Code']\<close> and \<open>e.response['Error']['Message']\<close>, and the
  text \<open>str(e)\<close>. \<open>NameError\<close> holds the unbound name, \<open>TypeError\<close> and \<open>OtherException\<close>
  (any other subclass of \<open>Exception\<close>, a transport failure for instance) hold their text.
\<close>

datatype exn =
    ClientError (error_code: string) (error_message: string) (error_text: string)
  | NameError string
  | TypeError string
  | OtherException string

fun str_exn :: "exn \<Rightarrow> string" where
  "str_exn (ClientError code msg txt) = txt"
| "str_exn (NameError name) = ''name '' @ [CHR 0x27] @ name @ [CHR 0x27] @ '' is not defined''"
| "str_exn (TypeError txt) = txt"
| "str_exn (OtherException txt) = txt"

text \<open>Dictionaries and lists that the scripts build themselves (results, JSON documents).\<close>

datatype pyval =
    Str string
  | List "pyval list"
  | Dict "(string \<times> pyval) list"

fun dict_get :: "pyval \<Rightarrow> string \<Rightarrow> pyval option" where
  "dict_get (Dict kvs) k = map_of kvs k"
| "dict_get (Str v) k = None"
| "dict_get (List vs) k = None"

text \<open>
  Responses of the provider, with the fields the scripts read:
  \<open>response['UserPool']['Id']\<close>, \<open>response['ResourceServer']['Identifier']\<close>,
  \<open>response['UserPoolClient']['ClientId']\<close> and \<open>['ClientSecret']\<close> (read by the
  machine-to-machine script only), \<open>response['AuthenticationResult']['AccessToken']\<close>.
\<close>

datatype user_pool_response = UserPoolResponse (UserPool_Id: string)

datatype resource_server_response = ResourceServerResponse (ResourceServer_Identifier: string)

datatype user_pool_client_response =
  UserPoolClientResponse (UserPoolClient_ClientId: string) (UserPoolClient_ClientSecret: string)

datatype initiate_auth_response = InitiateAuthResponse (AuthenticationResult_AccessToken: string)

text \<open>
  The keyword arguments of each provider call, in the order the scripts write them.
  \<open>CreateUserPool PoolName MinimumLength\<close>;
  \<open>CreateResourceServer UserPoolId Identifier Name Scopes\<close>, a scope being the pair of
  \<open>ScopeName\<close> and \<open>ScopeDescription\<close>;
  \<open>CreateUserPoolClient UserPoolId ClientName GenerateSecret ExplicitAuthFlows oauth\<close>, where
  \<open>oauth\<close> holds \<open>SupportedIdentityProviders\<close>, \<open>AllowedOAuthFlows\<close>, \<open>AllowedOAuthScopes\<close>
  and \<open>AllowedOAuthFlowsUserPoolClient\<close> when the call passes them;
  \<open>CreateUserPoolDomain Domain UserPoolId\<close>;
  \<open>AdminCreateUser UserPoolId Username TemporaryPassword MessageAction\<close>;
  \<open>AdminSetUserPassword UserPoolId Username Password Permanent\<close>;
  \<open>InitiateAuth ClientId AuthFlow USERNAME PASSWORD\<close>.
\<close>

type_synonym oauth_settings = "string list \<times> string list \<times> string list \<times> bool"

datatype api_call =
    CreateUserPool string nat
  | CreateResourceServer string string string "(string \<times> string) list"
  | CreateUserPoolClient string string bool "string list" "oauth_settings option"
  | CreateUserPoolDomain string string
  | AdminCreateUser string string string string
  | AdminSetUserPassword string string string bool
  | InitiateAuth string string string string

text \<open>
  The client object returned by \<open>boto3.client('cognito-idp', region_name=...)\<close>: one
  operation per method the scripts call. What the provider answers is not part of the
  scripts, so each operation is a parameter: it raises or returns a response.
\<close>

record cognito_client =
  api_create_user_pool :: "string \<Rightarrow> nat \<Rightarrow> exn + user_pool_response"
  api_create_resource_server ::
    "string \<Rightarrow> string \<Rightarrow> string \<Rightarrow> (string \<times> string) list \<Rightarrow> exn + resource_server_response"
  api_create_user_pool_client ::
    "string \<Rightarrow> string \<Rightarrow> bool \<Rightarrow> string list \<Rightarrow> oauth_settings option
      \<Rightarrow> exn + user_pool_client_response"
  api_create_user_pool_domain :: "string \<Rightarrow> string \<Rightarrow> exn + unit"
  api_admin_create_user :: "string \<Rightarrow> string \<Rightarrow> string \<Rightarrow> string \<Rightarrow> exn + unit"
  api_admin_set_user_password :: "string \<Rightarrow> string \<Rightarrow> string \<Rightarrow> bool \<Rightarrow> exn + unit"
  api_initiate_auth :: "string \<Rightarrow> string \<Rightarrow> string \<Rightarrow> string \<Rightarrow> exn + initiate_auth_response"

text \<open>
  A \<open>boto3.Session()\<close> object: its \<open>region_name\<close> property raises, or gives the configured
  region, or \<open>None\<close>.
\<close>

datatype boto3_session = Session (region_name: "exn + string option")

text \<open>
  What a file of the working directory holds: what \<open>json.dump\<close> was given to write, or,
  when the write stopped before its end, an unfinished document.
\<close>

datatype document =
    PoolDocument user_pool_response
  | ResourceServerDocument resource_server_response
  | ClientDocument user_pool_client_response
  | JsonDocument pyval
  | Unfinished

text \<open>
  How \<open>with open(name, 'w') as f: json.dump(doc, f, ...)\<close> ends: \<open>open\<close> raises; or the file
  is opened, and so emptied, and the write raises before the document is complete; or the
  document is written.
\<close>

datatype write_outcome = OpenFails exn | DumpFails exn | Written

text \<open>
  The interpreter state a run changes: the lines printed on standard output, the files of
  the working directory, and the provider calls made so far, in order.
\<close>

record pstate =
  stdout :: "string list"
  files :: "string \<rightharpoonup> document"
  calls :: "api_call list"

type_synonym 'a py = "pstate \<Rightarrow> (exn + 'a) \<times> pstate"

text \<open>
  What a run finds around it: the process environment \<open>os.environ\<close>, the outcome of
  \<open>boto3.Session()\<close>, the outcome of \<open>boto3.client(service, region_name=region)\<close>, the
  clock, as the value of \<open>int(time.time())\<close>, how the write of each file ends, and what a
  call of each builtin of the interpreter without arguments does.
\<close>

record env =
  environ :: "string \<rightharpoonup> string"
  boto3_Session :: "exn + boto3_session"
  boto3_client :: "string \<Rightarrow> string \<Rightarrow> exn + cognito_client"
  time_time :: int
  file_write :: "string \<Rightarrow> write_outcome"
  call_builtin :: "string \<Rightarrow> unit py"

definition py_return :: "'a \<Rightarrow> 'a py" where
  "py_return v s = (Inr v, s)"

definition py_raise :: "exn \<Rightarrow> 'a py" where
  "py_raise e s = (Inl e, s)"

text \<open>Sequencing of statements: an exception of the first skips the rest.\<close>

definition py_bind :: "'a py \<Rightarrow> ('a \<Rightarrow> 'b py) \<Rightarrow> 'b py" where
  "py_bind m f s = (case m s of (Inl e, s') \<Rightarrow> (Inl e, s') | (Inr v, s') \<Rightarrow> f v s')"

text \<open>\<open>try: m except Exception as e: h e\<close>; every exception of the model is an \<open>Exception\<close>.\<close>

definition py_except :: "'a py \<Rightarrow> (exn \<Rightarrow> 'a py) \<Rightarrow> 'a py" where
  "py_except m h s = (case m s of (Inl e, s') \<Rightarrow> h e s' | (Inr v, s') \<Rightarrow> (Inr v, s'))"

text \<open>
  \<open>try: m except ClientError as e: h e\<close>: the handler sees a \<open>ClientError\<close> only, any other
  exception passes through.
\<close>

definition py_except_ClientError :: "'a py \<Rightarrow> (exn \<Rightarrow> 'a py) \<Rightarrow> 'a py" where
  "py_except_ClientError m h s =
     (case m s of
        (Inl (ClientError code msg txt), s') \<Rightarrow> h (ClientError code msg txt) s'
      | (Inl (NameError n), s') \<Rightarrow> (Inl (NameError n), s')
      | (Inl (TypeError t), s') \<Rightarrow> (Inl (TypeError t), s')
      | (Inl (OtherException t), s') \<Rightarrow> (Inl (OtherException t), s')
      | (Inr v, s') \<Rightarrow> (Inr v, s'))"

definition py_print :: "string \<Rightarrow> unit py" where
  "py_print line s = (Inr (), s\<lparr>stdout := stdout s @ [line]\<rparr>)"

text \<open>
  \<open>with open(name, 'w') as f: json.dump(doc, f, ...)\<close>: an exception of \<open>open\<close> leaves the
  files as they were, an exception of the write leaves the file unfinished, and otherwise
  the file holds the document.
\<close>

definition write_file :: "env \<Rightarrow> string \<Rightarrow> document \<Rightarrow> unit py" where
  "write_file e name doc s =
     (case file_write e name of
        OpenFails ex \<Rightarrow> (Inl ex, s)
      | DumpFails ex \<Rightarrow> (Inl ex, s\<lparr>files := (files s)(name \<mapsto> Unfinished)\<rparr>)
      | Written \<Rightarrow> (Inr (), s\<lparr>files := (files s)(name \<mapsto> doc)\<rparr>))"

text \<open>A method call on the client: the call is made (and recorded), then raises or returns.\<close>

definition provider_call :: "api_call \<Rightarrow> exn + 'a \<Rightarrow> 'a py" where
  "provider_call c outcome s = (outcome, s\<lparr>calls := calls s @ [c]\<rparr>)"

section \<open>user\_cognito\_setup.py\<close>

subsection \<open>get\_aws\_region\<close>

text \<open>
  \<open>region = os.environ.get('AWS_REGION')\<close>; when \<open>not region\<close> (\<open>None\<close> or the empty string),
  the session is asked inside \<open>try ... except Exception: pass\<close>; when \<open>not region\<close> still,
  the default is taken and the warning printed.
\<close>

definition py_not :: "string option \<Rightarrow> bool" where
  "py_not region = (case region of None \<Rightarrow> True | Some v \<Rightarrow> v = [])"

definition session_region_name :: "env \<Rightarrow> (string option) py" where
  "session_region_name e =
     py_bind (\<lambda>s. (boto3_Session e, s)) (\<lambda>session. (\<lambda>s. (region_name session, s)))"

definition get_aws_region :: "env \<Rightarrow> string py" where
  "get_aws_region e =
     py_bind (py_return (environ e ''AWS_REGION'')) (\<lambda>region.
     py_bind (if py_not region
              then py_except (session_region_name e) (\<lambda>ex. py_return region)
              else py_return region) (\<lambda>region.
     (case region of
        None \<Rightarrow>
          py_bind (py_print (''Warning: No region configured. Using default: '' @ ''us-east-1''))
            (\<lambda>u. py_return ''us-east-1'')
      | Some v \<Rightarrow>
          if v = []
          then py_bind (py_print (''Warning: No region configured. Using default: '' @ ''us-east-1''))
                 (\<lambda>u. py_return ''us-east-1'')
          else py_return v)))"

subsection \<open>The four helpers\<close>

text \<open>
  Each helper wraps its provider calls in \<open>try ... except ClientError as e: print(...); raise\<close>.
  Default arguments (\<open>pool_name="DemoUserPool"\<close>, \<open>client_name="DemoClient"\<close>,
  \<open>temp_password="Temp123!"\<close>, \<open>permanent_password="MyPassword123!"\<close>,
  \<open>password="MyPassword123!"\<close>) are passed by the caller below.
\<close>

definition create_user_pool :: "cognito_client \<Rightarrow> string \<Rightarrow> string py" where
  "create_user_pool cognito_client pool_name =
     py_except_ClientError
       (py_bind (provider_call (CreateUserPool pool_name 8)
                   (api_create_user_pool cognito_client pool_name 8)) (\<lambda>response.
        py_bind (py_return (UserPool_Id response)) (\<lambda>pool_id.
        py_bind (py_print (''Created User Pool: '' @ pool_name @ '' (ID: '' @ pool_id @ '')''))
          (\<lambda>u. py_return pool_id))))
       (\<lambda>ex. py_bind (py_print (''Error creating user pool: '' @ str_exn ex))
          (\<lambda>u. py_raise ex))"

definition create_app_client :: "cognito_client \<Rightarrow> string \<Rightarrow> string \<Rightarrow> string py" where
  "create_app_client cognito_client pool_id client_name =
     py_except_ClientError
       (py_bind (provider_call
                   (CreateUserPoolClient pool_id client_name False
                      [''ALLOW_USER_PASSWORD_AUTH'', ''ALLOW_REFRESH_TOKEN_AUTH''] None)
                   (api_create_user_pool_client cognito_client pool_id client_name False
                      [''ALLOW_USER_PASSWORD_AUTH'', ''ALLOW_REFRESH_TOKEN_AUTH''] None))
          (\<lambda>response.
        py_bind (py_return (UserPoolClient_ClientId response)) (\<lambda>client_id.
        py_bind (py_print (''Created App Client: '' @ client_name @ '' (ID: '' @ client_id @ '')''))
          (\<lambda>u. py_return client_id))))
       (\<lambda>ex. py_bind (py_print (''Error creating app client: '' @ str_exn ex))
          (\<lambda>u. py_raise ex))"

definition create_user ::
  "cognito_client \<Rightarrow> string \<Rightarrow> string \<Rightarrow> string \<Rightarrow> string \<Rightarrow> unit py" where
  "create_user cognito_client pool_id username temp_password permanent_password =
     py_except_ClientError
       (py_bind (provider_call (AdminCreateUser pool_id username temp_password ''SUPPRESS'')
                   (api_admin_create_user cognito_client pool_id username temp_password
                      ''SUPPRESS'')) (\<lambda>u.
        py_bind (py_print (''Created user: '' @ username)) (\<lambda>u.
        provider_call (AdminSetUserPassword pool_id username permanent_password True)
          (api_admin_set_user_password cognito_client pool_id username permanent_password True))))
       (\<lambda>ex. py_bind (py_print (''Error creating user '' @ username @ '': '' @ str_exn ex))
          (\<lambda>u. py_raise ex))"

definition authenticate_user ::
  "cognito_client \<Rightarrow> string \<Rightarrow> string \<Rightarrow> string \<Rightarrow> string py" where
  "authenticate_user cognito_client client_id username password =
     py_except_ClientError
       (py_bind (provider_call (InitiateAuth client_id ''USER_PASSWORD_AUTH'' username password)
                   (api_initiate_auth cognito_client client_id ''USER_PASSWORD_AUTH'' username
                      password)) (\<lambda>response.
        py_bind (py_return (AuthenticationResult_AccessToken response)) (\<lambda>access_token.
        py_bind (py_print (''Successfully authenticated user: '' @ username))
          (\<lambda>u. py_return access_token))))
       (\<lambda>ex. py_bind (py_print (''Error authenticating user '' @ username @ '': '' @ str_exn ex))
          (\<lambda>u. py_raise ex))"

subsection \<open>create\_spa\_pool\<close>

text \<open>
  The region is resolved and the client built before the \<open>try\<close>; the body of the \<open>try\<close>
  is the sequence of helper calls ending in the \<open>return\<close> of the aggregate dictionary;
  \<open>except Exception as e\<close> prints and re-raises.
\<close>

definition spa_steps :: "cognito_client \<Rightarrow> string \<Rightarrow> pyval py" where
  "spa_steps cognito_client region =
     py_bind (create_user_pool cognito_client ''DemoUserPool'') (\<lambda>pool_id.
     py_bind (create_app_client cognito_client pool_id ''DemoClient'') (\<lambda>client_id.
     py_bind (py_print ([CHR 0x0A] @ ''Creating testuser1...'')) (\<lambda>u.
     py_bind (create_user cognito_client pool_id ''testuser1'' ''Temp123!'' ''MyPassword123!'')
       (\<lambda>u.
     py_bind (authenticate_user cognito_client client_id ''testuser1'' ''MyPassword123!'')
       (\<lambda>access_token_1.
     py_bind (py_print ([CHR 0x0A] @ ''Creating testuser2...'')) (\<lambda>u.
     py_bind (create_user cognito_client pool_id ''testuser2'' ''Temp123!'' ''MyPassword123!'')
       (\<lambda>u.
     py_bind (authenticate_user cognito_client client_id ''testuser2'' ''MyPassword123!'')
       (\<lambda>access_token_2.
     py_bind (py_return (''https://cognito-idp.'' @ region @ ''.amazonaws.com/'' @ pool_id
                          @ ''/.well-known/openid-configuration'')) (\<lambda>discovery_url.
     py_return (Dict [
       (''pool_id'', Str pool_id),
       (''client_id'', Str client_id),
       (''discovery_url'', Str discovery_url),
       (''region'', Str region),
       (''user1'', Dict [(''username'', Str ''testuser1''), (''password'', Str ''MyPassword123!'')]),
       (''user2'', Dict [(''username'', Str ''testuser2''), (''password'', Str ''MyPassword123!'')]),
       (''access_tokens'', Dict [(''testuser1'', Str access_token_1),
                                 (''testuser2'', Str access_token_2)])]))))))))))"

definition create_spa_pool :: "env \<Rightarrow> pyval py" where
  "create_spa_pool e =
     py_bind (get_aws_region e) (\<lambda>region.
     py_bind (py_print (''Using AWS Region: '' @ region)) (\<lambda>u.
     py_bind (py_print []) (\<lambda>u.
     py_bind (\<lambda>s. (boto3_client e ''cognito-idp'' region, s)) (\<lambda>cognito_client.
     py_except (spa_steps cognito_client region)
       (\<lambda>ex. py_bind (py_print (''Setup failed: '' @ str_exn ex)) (\<lambda>u. py_raise ex))))))"

subsection \<open>The top-level block\<close>

text \<open>
  A call \<open>name()\<close> without arguments looks the name up first, among the names the module
  has bound and then among the builtins of the interpreter; a name bound in neither raises
  \<open>NameError\<close>.

  When the \<open>if __name__ == "__main__":\<close> block runs, the module has bound the names the
  interpreter gives every script, the names of its four imports and the names of its six
  functions (the table is that of CPython 3.11). The two functions without parameters can
  be called without arguments; for each other name the call raises \<open>TypeError\<close>, with the
  text given.
\<close>

definition quoted :: "string \<Rightarrow> string" where
  "quoted name = [CHR 0x27] @ name @ [CHR 0x27]"

datatype binding = Callable0 "env \<Rightarrow> unit py" | Uncallable string

definition user_cognito_setup_globals :: "(string \<times> binding) list" where
  "user_cognito_setup_globals =
     [(''__name__'', Uncallable (quoted ''str'' @ '' object is not callable'')),
      (''__doc__'', Uncallable (quoted ''str'' @ '' object is not callable'')),
      (''__package__'', Uncallable (quoted ''NoneType'' @ '' object is not callable'')),
      (''__loader__'', Uncallable (quoted ''SourceFileLoader'' @ '' object is not callable'')),
      (''__spec__'', Uncallable (quoted ''NoneType'' @ '' object is not callable'')),
      (''__annotations__'', Uncallable (quoted ''dict'' @ '' object is not callable'')),
      (''__builtins__'', Uncallable (quoted ''module'' @ '' object is not callable'')),
      (''__file__'', Uncallable (quoted ''str'' @ '' object is not callable'')),
      (''__cached__'', Uncallable (quoted ''NoneType'' @ '' object is not callable'')),
      (''boto3'', Uncallable (quoted ''module'' @ '' object is not callable'')),
      (''json'', Uncallable (quoted ''module'' @ '' object is not callable'')),
      (''os'', Uncallable (quoted ''module'' @ '' object is not callable'')),
      (''ClientError'',
         Uncallable (''ClientError.__init__() missing 2 required positional arguments: ''
           @ quoted ''error_response'' @ '' and '' @ quoted ''operation_name'')),
      (''get_aws_region'',
         Callable0 (\<lambda>e. py_bind (get_aws_region e) (\<lambda>region. py_return ()))),
      (''create_user_pool'',
         Uncallable (''create_user_pool() missing 1 required positional argument: ''
           @ quoted ''cognito_client'')),
      (''create_app_client'',
         Uncallable (''create_app_client() missing 2 required positional arguments: ''
           @ quoted ''cognito_client'' @ '' and '' @ quoted ''pool_id'')),
      (''create_user'',
         Uncallable (''create_user() missing 3 required positional arguments: ''
           @ quoted ''cognito_client'' @ '', '' @ quoted ''pool_id'' @ '', and ''
           @ quoted ''username'')),
      (''authenticate_user'',
         Uncallable (''authenticate_user() missing 3 required positional arguments: ''
           @ quoted ''cognito_client'' @ '', '' @ quoted ''client_id'' @ '', and ''
           @ quoted ''username'')),
      (''create_spa_pool'',
         Callable0 (\<lambda>e. py_bind (create_spa_pool e) (\<lambda>config. py_return ())))]"

text \<open>The names of the module \<open>builtins\<close> of CPython 3.11.\<close>

definition python_builtin_names :: "string list" where
  "python_builtin_names =
     [''ArithmeticError'', ''AssertionError'', ''AttributeError'', ''BaseException'',
      ''BaseExceptionGroup'', ''BlockingIOError'', ''BrokenPipeError'', ''BufferError'',
      ''BytesWarning'', ''ChildProcessError'', ''ConnectionAbortedError'',
      ''ConnectionError'', ''ConnectionRefusedError'', ''ConnectionResetError'',
      ''DeprecationWarning'', ''EOFError'', ''Ellipsis'', ''EncodingWarning'',
      ''EnvironmentError'', ''Exception'', ''ExceptionGroup'', ''False'',
      ''FileExistsError'', ''FileNotFoundError'', ''FloatingPointError'',
      ''FutureWarning'', ''GeneratorExit'', ''IOError'', ''ImportError'',
      ''ImportWarning'', ''IndentationError'', ''IndexError'', ''InterruptedError'',
      ''IsADirectoryError'', ''KeyError'', ''KeyboardInterrupt'', ''LookupError'',
      ''MemoryError'', ''ModuleNotFoundError'', ''NameError'', ''None'',
      ''NotADirectoryError'', ''NotImplemented'', ''NotImplementedError'', ''OSError'',
      ''OverflowError'', ''PendingDeprecationWarning'', ''PermissionError'',
      ''ProcessLookupError'', ''RecursionError'', ''ReferenceError'', ''ResourceWarning'',
      ''RuntimeError'', ''RuntimeWarning'', ''StopAsyncIteration'', ''StopIteration'',
      ''SyntaxError'', ''SyntaxWarning'', ''SystemError'', ''SystemExit'', ''TabError'',
      ''TimeoutError'', ''True'', ''TypeError'', ''UnboundLocalError'',
      ''UnicodeDecodeError'', ''UnicodeEncodeError'', ''UnicodeError'',
      ''UnicodeTranslateError'', ''UnicodeWarning'', ''UserWarning'', ''ValueError'',
      ''Warning'', ''ZeroDivisionError'', ''__build_class__'', ''__debug__'', ''__doc__'',
      ''__import__'', ''__loader__'', ''__name__'', ''__package__'', ''__spec__'', ''abs'',
      ''aiter'', ''all'', ''anext'', ''any'', ''ascii'', ''bin'', ''bool'', ''breakpoint'',
      ''bytearray'', ''bytes'', ''callable'', ''chr'', ''classmethod'', ''compile'',
      ''complex'', ''copyright'', ''credits'', ''delattr'', ''dict'', ''dir'', ''divmod'',
      ''enumerate'', ''eval'', ''exec'', ''exit'', ''filter'', ''float'', ''format'',
      ''frozenset'', ''getattr'', ''globals'', ''hasattr'', ''hash'', ''help'', ''hex'',
      ''id'', ''input'', ''int'', ''isinstance'', ''issubclass'', ''iter'', ''len'',
      ''license'', ''list'', ''locals'', ''map'', ''max'', ''memoryview'', ''min'',
      ''next'', ''object'', ''oct'', ''open'', ''ord'', ''pow'', ''print'', ''property'',
      ''quit'', ''range'', ''repr'', ''reversed'', ''round'', ''set'', ''setattr'',
      ''slice'', ''sorted'', ''staticmethod'', ''str'', ''sum'', ''super'', ''tuple'',
      ''type'', ''vars'', ''zip'']"

text \<open>
  The call \<open>name()\<close> at the top level of the module; the value it returns is bound to a
  variable that nothing reads.
\<close>

definition call_global :: "env \<Rightarrow> string \<Rightarrow> unit py" where
  "call_global e name =
     (case map_of user_cognito_setup_globals name of
        Some (Callable0 f) \<Rightarrow> f e
      | Some (Uncallable reason) \<Rightarrow> py_raise (TypeError reason)
      | None \<Rightarrow>
          if name \<in> set python_builtin_names then call_builtin e name
          else py_raise (NameError name))"

text \<open>The block itself is \<open>config = main()\<close>.\<close>

definition user_cognito_setup_script :: "string \<Rightarrow> env \<Rightarrow> unit py" where
  "user_cognito_setup_script module_name e =
     (if module_name = ''__main__''
      then py_bind (call_global e ''main'') (\<lambda>config. py_return ())
      else py_return ())"

text \<open>
  The status of the process: an exception that leaves the script ends it with status 1,
  a script that runs to its end gives 0.
\<close>

definition exit_status :: "(exn + 'a) \<times> pstate \<Rightarrow> nat" where
  "exit_status r = (case fst r of Inl ex \<Rightarrow> 1 | Inr v \<Rightarrow> 0)"

section \<open>m2m\_cognito\_setup.py\<close>

subsection \<open>Configuration and text\<close>

definition REGION :: string where
  "REGION = ''us-west-2''"

definition POOL_NAME :: string where
  "POOL_NAME = ''M2MUserPool''"

definition RESOURCE_SERVER_IDENTIFIER :: string where
  "RESOURCE_SERVER_IDENTIFIER = ''https://api.myapp.com''"

definition RESOURCE_SERVER_NAME :: string where
  "RESOURCE_SERVER_NAME = ''MyApp API''"

definition CLIENT_NAME :: string where
  "CLIENT_NAME = ''M2MClient''"

text \<open>
  The pictographs of the progress lines, as their UTF-8 bytes: U+2705, U+26A0 U+FE0F,
  U+274C, U+1F680 and U+1F389.
\<close>

definition check_mark :: string where
  "check_mark = [CHR 0xE2, CHR 0x9C, CHR 0x85]"

definition warning_sign :: string where
  "warning_sign = [CHR 0xE2, CHR 0x9A, CHR 0xA0, CHR 0xEF, CHR 0xB8, CHR 0x8F]"

definition cross_mark :: string where
  "cross_mark = [CHR 0xE2, CHR 0x9D, CHR 0x8C]"

definition rocket :: string where
  "rocket = [CHR 0xF0, CHR 0x9F, CHR 0x9A, CHR 0x80]"

definition party_popper :: string where
  "party_popper = [CHR 0xF0, CHR 0x9F, CHR 0x8E, CHR 0x89]"

text \<open>\<open>str\<close> of an integer, in decimal.\<close>

definition digit_char :: "nat \<Rightarrow> char" where
  "digit_char d = ''0123456789'' ! d"

fun str_nat :: "nat \<Rightarrow> string" where
  "str_nat n = (if n < 10 then [digit_char n] else str_nat (n div 10) @ [digit_char (n mod 10)])"

declare str_nat.simps [simp del]

definition str_int :: "int \<Rightarrow> string" where
  "str_int i = (if i < 0 then ''-'' @ str_nat (nat (- i)) else str_nat (nat i))"

text \<open>The slice \<open>t[-5:]\<close>: the last five characters, or all of \<open>t\<close> when it is shorter.\<close>

definition last5 :: "string \<Rightarrow> string" where
  "last5 t = drop (length t - 5) t"

subsection \<open>create\_m2m\_pool\<close>

text \<open>
  Step 4: the domain is created inside its own \<open>try\<close>; a \<open>ClientError\<close> whose code is
  \<open>InvalidParameterException\<close> is reported and the run goes on, any other is re-raised.
\<close>

definition m2m_create_domain :: "cognito_client \<Rightarrow> string \<Rightarrow> string \<Rightarrow> unit py" where
  "m2m_create_domain cognito_client domain_name pool_id =
     py_except_ClientError
       (py_bind (provider_call (CreateUserPoolDomain domain_name pool_id)
                   (api_create_user_pool_domain cognito_client domain_name pool_id)) (\<lambda>u.
        py_print (check_mark @ '' Domain created: '' @ domain_name)))
       (\<lambda>ex. if error_code ex = ''InvalidParameterException''
             then py_print (warning_sign @ ''  Domain '' @ domain_name
                              @ '' might already exist, continuing...'')
             else py_raise ex)"

text \<open>
  The outcomes of \<open>create_user_pool_domain\<close> after which step 4 lets the run go on: the
  call returns, or it raises a \<open>ClientError\<close> with the code \<open>InvalidParameterException\<close>.
\<close>

definition domain_tolerated :: "exn + unit \<Rightarrow> bool" where
  "domain_tolerated outcome =
     (case outcome of
        Inl ex \<Rightarrow> is_ClientError ex \<and> error_code ex = ''InvalidParameterException''
      | Inr u \<Rightarrow> True)"

text \<open>
  Step 5: the test user is created and its permanent password set inside one \<open>try\<close>; a
  \<open>ClientError\<close> whose code is \<open>UsernameExistsException\<close> is reported and the run goes on,
  any other is re-raised.
\<close>

definition m2m_create_test_user :: "cognito_client \<Rightarrow> string \<Rightarrow> unit py" where
  "m2m_create_test_user cognito_client pool_id =
     py_except_ClientError
       (py_bind (provider_call
                   (AdminCreateUser pool_id ''m2m-test-user'' ''TempPass123!'' ''SUPPRESS'')
                   (api_admin_create_user cognito_client pool_id ''m2m-test-user''
                      ''TempPass123!'' ''SUPPRESS'')) (\<lambda>u.
        py_bind (provider_call
                   (AdminSetUserPassword pool_id ''m2m-test-user'' ''TestPass123!'' True)
                   (api_admin_set_user_password cognito_client pool_id ''m2m-test-user''
                      ''TestPass123!'' True)) (\<lambda>u.
        py_print (check_mark @ '' Test user created: m2m-test-user / TestPass123!''))))
       (\<lambda>ex. if error_code ex = ''UsernameExistsException''
             then py_print (warning_sign @ ''  Test user already exists, continuing...'')
             else py_raise ex)"

text \<open>The body of the outer \<open>try\<close>, steps 1 to 7 and the \<open>return\<close> of the dictionary.\<close>

definition m2m_steps :: "env \<Rightarrow> cognito_client \<Rightarrow> (pyval option) py" where
  "m2m_steps e cognito_client =
     py_bind (py_print ''Creating User Pool...'') (\<lambda>u.
     py_bind (provider_call (CreateUserPool POOL_NAME 8)
                (api_create_user_pool cognito_client POOL_NAME 8)) (\<lambda>user_pool_response.
     py_bind (py_return (UserPool_Id user_pool_response)) (\<lambda>pool_id.
     py_bind (py_print (check_mark @ '' User Pool created with ID: '' @ pool_id)) (\<lambda>u.
     py_bind (write_file e ''pool.json'' (PoolDocument user_pool_response)) (\<lambda>u.
     py_bind (py_print ''Creating Resource Server with custom scopes...'') (\<lambda>u.
     py_bind (provider_call
                (CreateResourceServer pool_id RESOURCE_SERVER_IDENTIFIER RESOURCE_SERVER_NAME
                   [(''read'', ''Read access to API resources''),
                    (''write'', ''Write access to API resources''),
                    (''admin'', ''Administrative access to API resources'')])
                (api_create_resource_server cognito_client pool_id RESOURCE_SERVER_IDENTIFIER
                   RESOURCE_SERVER_NAME
                   [(''read'', ''Read access to API resources''),
                    (''write'', ''Write access to API resources''),
                    (''admin'', ''Administrative access to API resources'')]))
       (\<lambda>resource_server_response.
     py_bind (py_return (ResourceServer_Identifier resource_server_response))
       (\<lambda>resource_server_id.
     py_bind (py_print (check_mark @ '' Resource Server created with ID: '' @ resource_server_id))
       (\<lambda>u.
     py_bind (write_file e ''resource_server.json'' (ResourceServerDocument resource_server_response))
       (\<lambda>u.
     py_bind (py_print ''Creating M2M App Client...'') (\<lambda>u.
     py_bind (provider_call
                (CreateUserPoolClient pool_id CLIENT_NAME True [''ALLOW_ADMIN_USER_PASSWORD_AUTH'']
                   (Some ([''COGNITO''], [''client_credentials''],
                          [RESOURCE_SERVER_IDENTIFIER @ ''/read'',
                           RESOURCE_SERVER_IDENTIFIER @ ''/write'',
                           RESOURCE_SERVER_IDENTIFIER @ ''/admin''], True)))
                (api_create_user_pool_client cognito_client pool_id CLIENT_NAME True
                   [''ALLOW_ADMIN_USER_PASSWORD_AUTH'']
                   (Some ([''COGNITO''], [''client_credentials''],
                          [RESOURCE_SERVER_IDENTIFIER @ ''/read'',
                           RESOURCE_SERVER_IDENTIFIER @ ''/write'',
                           RESOURCE_SERVER_IDENTIFIER @ ''/admin''], True))))
       (\<lambda>client_response.
     py_bind (py_return (UserPoolClient_ClientId client_response)) (\<lambda>client_id.
     py_bind (py_return (UserPoolClient_ClientSecret client_response)) (\<lambda>client_secret.
     py_bind (py_print (check_mark @ '' M2M Client created with ID: '' @ client_id)) (\<lambda>u.
     py_bind (write_file e ''m2m_client.json'' (ClientDocument client_response)) (\<lambda>u.
     py_bind (py_return (''m2m-domain-'' @ last5 (str_int (time_time e)))) (\<lambda>domain_name.
     py_bind (py_print (''Creating User Pool Domain: '' @ domain_name)) (\<lambda>u.
     py_bind (m2m_create_domain cognito_client domain_name pool_id) (\<lambda>u.
     py_bind (py_print ''Creating test user...'') (\<lambda>u.
     py_bind (m2m_create_test_user cognito_client pool_id) (\<lambda>u.
     py_bind (py_print ([CHR 0x0A] @ replicate 50 CHR ''='')) (\<lambda>u.
     py_bind (py_print ''Machine-to-Machine Client Created Successfully!'') (\<lambda>u.
     py_bind (py_print (replicate 50 CHR ''='')) (\<lambda>u.
     py_bind (py_print (''User Pool ID: '' @ pool_id)) (\<lambda>u.
     py_bind (py_print (''Resource Server ID: '' @ resource_server_id)) (\<lambda>u.
     py_bind (py_print (''Client ID: '' @ client_id)) (\<lambda>u.
     py_bind (py_print (replicate 50 CHR ''='')) (\<lambda>u.
     py_bind (py_return (Dict [
                (''userPoolId'', Str pool_id),
                (''resourceServerId'', Str resource_server_id),
                (''clientId'', Str client_id),
                (''clientSecret'', Str client_secret),
                (''region'', Str REGION),
                (''scopes'', List [Str (RESOURCE_SERVER_IDENTIFIER @ ''/read''),
                                   Str (RESOURCE_SERVER_IDENTIFIER @ ''/write''),
                                   Str (RESOURCE_SERVER_IDENTIFIER @ ''/admin'')])]))
       (\<lambda>credentials.
     py_bind (write_file e ''m2m_credentials.json'' (JsonDocument credentials)) (\<lambda>u.
     py_bind (py_print ''Credentials saved to: m2m_credentials.json'') (\<lambda>u.
     py_return (Some (Dict [
       (''pool_id'', Str pool_id),
       (''client_id'', Str client_id),
       (''client_secret'', Str client_secret),
       (''domain_name'', Str domain_name),
       (''resource_server_id'', Str resource_server_id)])))))))))))))))))))))))))))))))))"

text \<open>
  The two handlers of the outer \<open>try\<close>: \<open>except ClientError as e\<close> prints the code and the
  message, \<open>except Exception as e\<close> prints \<open>str(e)\<close>; both \<open>return None\<close>.
\<close>

fun m2m_failed :: "exn \<Rightarrow> (pyval option) py" where
  "m2m_failed (ClientError code msg txt) =
     py_bind (py_print (cross_mark @ '' AWS Error: '' @ code @ '' - '' @ msg))
       (\<lambda>u. py_return None)"
| "m2m_failed (NameError n) =
     py_bind (py_print (cross_mark @ '' Unexpected error: '' @ str_exn (NameError n)))
       (\<lambda>u. py_return None)"
| "m2m_failed (TypeError t) =
     py_bind (py_print (cross_mark @ '' Unexpected error: '' @ str_exn (TypeError t)))
       (\<lambda>u. py_return None)"
| "m2m_failed (OtherException t) =
     py_bind (py_print (cross_mark @ '' Unexpected error: '' @ str_exn (OtherException t)))
       (\<lambda>u. py_return None)"

text \<open>The client is built before the \<open>try\<close>, so a failure to build it is not caught.\<close>

definition create_m2m_pool :: "env \<Rightarrow> (pyval option) py" where
  "create_m2m_pool e =
     py_bind (\<lambda>s. (boto3_client e ''cognito-idp'' REGION, s)) (\<lambda>cognito_client.
     py_except (m2m_steps e cognito_client) m2m_failed)"

text \<open>
  The top-level block: a banner, the call, and a closing line chosen by \<open>if result:\<close>.
  \<open>None\<close> is false; a string, a list or a dictionary is true when it is not empty.
\<close>

fun py_bool :: "pyval \<Rightarrow> bool" where
  "py_bool (Str v) = (v \<noteq> [])"
| "py_bool (List vs) = (vs \<noteq> [])"
| "py_bool (Dict kvs) = (kvs \<noteq> [])"

definition m2m_cognito_setup_script :: "string \<Rightarrow> env \<Rightarrow> unit py" where
  "m2m_cognito_setup_script module_name e =
     (if module_name = ''__main__''
      then py_bind (py_print (rocket @ '' Starting Cognito M2M setup with boto3...'')) (\<lambda>u.
           py_bind (create_m2m_pool e) (\<lambda>result.
           (case result of
              None \<Rightarrow> py_print ([CHR 0x0A] @ cross_mark @ '' Setup failed!'')
            | Some v \<Rightarrow>
                if py_bool v
                then py_print ([CHR 0x0A] @ party_popper @ '' Setup completed successfully!'')
                else py_print ([CHR 0x0A] @ cross_mark @ '' Setup failed!''))))
      else py_return ())"

section \<open>Sample environments\<close>

text \<open>
  A provider that accepts every call: it echoes the identifier of a resource server, hands
  out fixed identifiers and a token per user. In the sample environment every file can be
  written.
\<close>

definition sample_client :: cognito_client where
  "sample_client = \<lparr>
     api_create_user_pool = (\<lambda>name len. Inr (UserPoolResponse ''us-west-2_aBcD12345'')),
     api_create_resource_server = (\<lambda>pool ident name scopes. Inr (ResourceServerResponse ident)),
     api_create_user_pool_client =
       (\<lambda>pool name secret flows oauth. Inr (UserPoolClientResponse ''4h57client'' ''s3cr3t'')),
     api_create_user_pool_domain = (\<lambda>domain pool. Inr ()),
     api_admin_create_user = (\<lambda>pool user temp action. Inr ()),
     api_admin_set_user_password = (\<lambda>pool user pw perm. Inr ()),
     api_initiate_auth = (\<lambda>client flow user pw. Inr (InitiateAuthResponse (''token-of-'' @ user)))
   \<rparr>"

definition sample_env :: env where
  "sample_env = \<lparr>
     environ = Map.empty,
     boto3_Session = Inr (Session (Inr None)),
     boto3_client = (\<lambda>service region. Inr sample_client),
     time_time = 1700012345,
     file_write = (\<lambda>name. Written),
     call_builtin = (\<lambda>name. py_return ())
   \<rparr>"

definition empty_state :: pstate where
  "empty_state = \<lparr>stdout = [], files = Map.empty, calls = []\<rparr>"

text \<open>Three settings of the region: an override, an empty override, a session region.\<close>

definition env_override :: env where
  "env_override = sample_env\<lparr>
     environ := [''AWS_REGION'' \<mapsto> ''ap-south-1''],
     boto3_Session := Inr (Session (Inr (Some ''eu-west-1'')))\<rparr>"

definition env_empty_override :: env where
  "env_empty_override = sample_env\<lparr>
     environ := [''AWS_REGION'' \<mapsto> []],
     boto3_Session := Inr (Session (Inr (Some ''eu-west-1'')))\<rparr>"

definition env_session :: env where
  "env_session = sample_env\<lparr>boto3_Session := Inr (Session (Inr (Some ''eu-west-1'')))\<rparr>"

text \<open>A provider on which the user \<open>testuser2\<close> exists already.\<close>

definition client_user2_exists :: cognito_client where
  "client_user2_exists = sample_client\<lparr>
     api_admin_create_user := (\<lambda>pool user temp action.
       if user = ''testuser2''
       then Inl (ClientError ''UsernameExistsException'' ''User account already exists''
                   ''An error occurred (UsernameExistsException) when calling the AdminCreateUser operation: User account already exists'')
       else Inr ())\<rparr>"

definition env_user2_exists :: env where
  "env_user2_exists = sample_env\<lparr>boto3_client := (\<lambda>service region. Inr client_user2_exists)\<rparr>"

text \<open>What \<open>create_spa_pool\<close> returns in the sample environment.\<close>

definition sample_spa_result :: pyval where
  "sample_spa_result = Dict [
     (''pool_id'', Str ''us-west-2_aBcD12345''),
     (''client_id'', Str ''4h57client''),
     (''discovery_url'', Str ''https://cognito-idp.us-east-1.amazonaws.com/us-west-2_aBcD12345/.well-known/openid-configuration''),
     (''region'', Str ''us-east-1''),
     (''user1'', Dict [(''username'', Str ''testuser1''), (''password'', Str ''MyPassword123!'')]),
     (''user2'', Dict [(''username'', Str ''testuser2''), (''password'', Str ''MyPassword123!'')]),
     (''access_tokens'', Dict [(''testuser1'', Str ''token-of-testuser1''),
                               (''testuser2'', Str ''token-of-testuser2'')])]"

text \<open>What \<open>create_m2m_pool\<close> returns in the sample environment.\<close>

definition sample_m2m_result :: pyval where
  "sample_m2m_result = Dict [
     (''pool_id'', Str ''us-west-2_aBcD12345''),
     (''client_id'', Str ''4h57client''),
     (''client_secret'', Str ''s3cr3t''),
     (''domain_name'', Str ''m2m-domain-12345''),
     (''resource_server_id'', Str ''https://api.myapp.com'')]"



definition client_domain_limit :: cognito_client where
  "client_domain_limit = sample_client\<lparr>
     api_create_user_pool_domain := (\<lambda>domain pool.
       Inl (ClientError ''LimitExceededException'' ''Too many domains''
              ''An error occurred (LimitExceededException) when calling the CreateUserPoolDomain operation: Too many domains''))\<rparr>"

definition env_domain_limit :: env where
  "env_domain_limit =
     sample_env\<lparr>boto3_client := (\<lambda>service region. Inr client_domain_limit)\<rparr>"






section \<open>Unfolding rules\<close>

lemmas py_defs = py_bind_def py_return_def py_raise_def py_except_def py_except_ClientError_def
  py_print_def write_file_def provider_call_def

lemmas region_defs = get_aws_region_def py_not_def session_region_name_def

section \<open>Region resolution\<close>

text \<open>
  Claim C9. \<open>get_aws_region\<close> is total: whatever \<open>AWS_REGION\<close> holds (nothing, the empty
  string, a region), whether \<open>boto3.Session()\<close> or its \<open>region_name\<close> raises, gives \<open>None\<close>
  or gives a region, the function raises nothing and returns a string that is not empty.
\<close>

theorem get_aws_region_total:
  "\<exists>region. fst (get_aws_region e s) = Inr region \<and> region \<noteq> []"
  by (cases "boto3_Session e"; cases "environ e ''AWS_REGION''")
     (auto simp: region_defs py_defs split: option.splits sum.splits prod.splits)

text \<open>
  Claim C7, as the code has it. An override that is set to the empty string is not
  returned: \<open>if not region\<close> treats it as absent, and the session is asked.
\<close>

theorem get_aws_region_empty_override:
  "environ env_empty_override ''AWS_REGION'' = Some []
   \<and> fst (get_aws_region env_empty_override empty_state) = Inr ''eu-west-1''"
  by (simp add: region_defs py_defs env_empty_override_def sample_env_def)

text \<open>
  Claim C7, amended. \<open>get_aws_region\<close> returns \<open>AWS_REGION\<close> when it is set to a string that
  is not empty, and prints nothing. When \<open>AWS_REGION\<close> is unset or empty, it returns the
  region of the session when the session has one that is not empty, and prints nothing.
  When \<open>AWS_REGION\<close> is unset or empty and the session gives no region (\<open>boto3.Session()\<close>
  raises, \<open>region_name\<close> raises, is \<open>None\<close> or is empty), it returns \<open>us-east-1\<close> and
  prints the warning.
\<close>

theorem get_aws_region_preference:
  "(environ e ''AWS_REGION'' = Some r \<and> r \<noteq> [] \<longrightarrow> get_aws_region e s = (Inr r, s))
   \<and> ((environ e ''AWS_REGION'' = None \<or> environ e ''AWS_REGION'' = Some [])
        \<and> boto3_Session e = Inr (Session (Inr (Some r))) \<and> r \<noteq> []
        \<longrightarrow> get_aws_region e s = (Inr r, s))
   \<and> ((environ e ''AWS_REGION'' = None \<or> environ e ''AWS_REGION'' = Some [])
        \<and> (boto3_Session e = Inl x \<or> boto3_Session e = Inr (Session (Inl x))
             \<or> boto3_Session e = Inr (Session (Inr None))
             \<or> boto3_Session e = Inr (Session (Inr (Some []))))
        \<longrightarrow> get_aws_region e s =
              (Inr ''us-east-1'',
               s\<lparr>stdout := stdout s
                    @ [''Warning: No region configured. Using default: us-east-1'']\<rparr>))"
  by (auto simp: region_defs py_defs split: option.splits sum.splits prod.splits)

theorem get_aws_region_preference_witness:
  "(environ env_override ''AWS_REGION'' = Some ''ap-south-1''
      \<and> get_aws_region env_override empty_state = (Inr ''ap-south-1'', empty_state))
   \<and> (environ env_session ''AWS_REGION'' = None
      \<and> boto3_Session env_session = Inr (Session (Inr (Some ''eu-west-1'')))
      \<and> get_aws_region env_session empty_state = (Inr ''eu-west-1'', empty_state))
   \<and> (environ sample_env ''AWS_REGION'' = None
      \<and> boto3_Session sample_env = Inr (Session (Inr None))
      \<and> get_aws_region sample_env empty_state =
          (Inr ''us-east-1'',
           empty_state\<lparr>stdout := stdout empty_state
                @ [''Warning: No region configured. Using default: us-east-1'']\<rparr>))"
  using get_aws_region_preference [of env_override "''ap-south-1''" empty_state]
    get_aws_region_preference [of env_session "''eu-west-1''" empty_state]
    get_aws_region_preference [of sample_env "''eu-west-1''" empty_state "NameError []"]
  by (simp add: env_override_def env_session_def sample_env_def)

section \<open>The user-pool script\<close>

text \<open>
  Claim C1, on the code. Run directly, \<open>user_cognito_setup.py\<close> evaluates \<open>main()\<close>, a name
  the module does not bind: in every environment the block raises \<open>NameError\<close> at once,
  the state is as before (no provider call, no line printed), and the process ends with
  status 1. \<open>create_spa_pool\<close> is not run.
\<close>

theorem user_cognito_setup_script_NameError:
  "user_cognito_setup_script ''__main__'' e s = (Inl (NameError ''main''), s)
   \<and> exit_status (user_cognito_setup_script ''__main__'' e s) = 1"
  by (simp add: user_cognito_setup_script_def call_global_def user_cognito_setup_globals_def
      python_builtin_names_def exit_status_def py_defs)

section \<open>The helpers of the user-pool script, by outcome of their provider calls\<close>

lemmas seq_defs = py_bind_def py_return_def py_raise_def py_except_def py_print_def

lemma create_user_pool_eq:
  "create_user_pool c n s =
     (case api_create_user_pool c n 8 of
        Inl ex \<Rightarrow>
          (Inl ex,
           s\<lparr>calls := calls s @ [CreateUserPool n 8],
             stdout := stdout s @ (if is_ClientError ex
                                   then [''Error creating user pool: '' @ str_exn ex] else [])\<rparr>)
      | Inr r \<Rightarrow>
          (Inr (UserPool_Id r),
           s\<lparr>calls := calls s @ [CreateUserPool n 8],
             stdout := stdout s
               @ [''Created User Pool: '' @ n @ '' (ID: '' @ UserPool_Id r @ '')'']\<rparr>))"
proof (cases "api_create_user_pool c n 8")
  case (Inl ex)
  then show ?thesis by (cases ex) (simp_all add: create_user_pool_def py_defs)
next
  case (Inr r)
  then show ?thesis by (simp add: create_user_pool_def py_defs)
qed

lemma create_app_client_eq:
  "create_app_client c p n s =
     (case api_create_user_pool_client c p n False
             [''ALLOW_USER_PASSWORD_AUTH'', ''ALLOW_REFRESH_TOKEN_AUTH''] None of
        Inl ex \<Rightarrow>
          (Inl ex,
           s\<lparr>calls := calls s @ [CreateUserPoolClient p n False
                        [''ALLOW_USER_PASSWORD_AUTH'', ''ALLOW_REFRESH_TOKEN_AUTH''] None],
             stdout := stdout s @ (if is_ClientError ex
                                   then [''Error creating app client: '' @ str_exn ex] else [])\<rparr>)
      | Inr r \<Rightarrow>
          (Inr (UserPoolClient_ClientId r),
           s\<lparr>calls := calls s @ [CreateUserPoolClient p n False
                        [''ALLOW_USER_PASSWORD_AUTH'', ''ALLOW_REFRESH_TOKEN_AUTH''] None],
             stdout := stdout s
               @ [''Created App Client: '' @ n @ '' (ID: '' @ UserPoolClient_ClientId r @ '')'']\<rparr>))"
proof (cases "api_create_user_pool_client c p n False
                [''ALLOW_USER_PASSWORD_AUTH'', ''ALLOW_REFRESH_TOKEN_AUTH''] None")
  case (Inl ex)
  then show ?thesis by (cases ex) (simp_all add: create_app_client_def py_defs)
next
  case (Inr r)
  then show ?thesis by (simp add: create_app_client_def py_defs)
qed

lemma create_user_eq:
  "create_user c p u t pw s =
     (case api_admin_create_user c p u t ''SUPPRESS'' of
        Inl ex \<Rightarrow>
          (Inl ex,
           s\<lparr>calls := calls s @ [AdminCreateUser p u t ''SUPPRESS''],
             stdout := stdout s @ (if is_ClientError ex
                        then [''Error creating user '' @ u @ '': '' @ str_exn ex] else [])\<rparr>)
      | Inr a \<Rightarrow>
          (case api_admin_set_user_password c p u pw True of
             Inl ex \<Rightarrow>
               (Inl ex,
                s\<lparr>calls := calls s @ [AdminCreateUser p u t ''SUPPRESS'',
                                       AdminSetUserPassword p u pw True],
                  stdout := stdout s @ [''Created user: '' @ u]
                    @ (if is_ClientError ex
                       then [''Error creating user '' @ u @ '': '' @ str_exn ex] else [])\<rparr>)
           | Inr b \<Rightarrow>
               (Inr (),
                s\<lparr>calls := calls s @ [AdminCreateUser p u t ''SUPPRESS'',
                                       AdminSetUserPassword p u pw True],
                  stdout := stdout s @ [''Created user: '' @ u]\<rparr>)))"
proof (cases "api_admin_create_user c p u t ''SUPPRESS''")
  case (Inl ex)
  then show ?thesis by (cases ex) (simp_all add: create_user_def py_defs)
next
  case created: (Inr a)
  show ?thesis
  proof (cases "api_admin_set_user_password c p u pw True")
    case (Inl ex)
    with created show ?thesis by (cases ex) (simp_all add: create_user_def py_defs)
  next
    case (Inr b)
    with created show ?thesis by (simp add: create_user_def py_defs)
  qed
qed

lemma authenticate_user_eq:
  "authenticate_user c cl u pw s =
     (case api_initiate_auth c cl ''USER_PASSWORD_AUTH'' u pw of
        Inl ex \<Rightarrow>
          (Inl ex,
           s\<lparr>calls := calls s @ [InitiateAuth cl ''USER_PASSWORD_AUTH'' u pw],
             stdout := stdout s @ (if is_ClientError ex
                        then [''Error authenticating user '' @ u @ '': '' @ str_exn ex] else [])\<rparr>)
      | Inr r \<Rightarrow>
          (Inr (AuthenticationResult_AccessToken r),
           s\<lparr>calls := calls s @ [InitiateAuth cl ''USER_PASSWORD_AUTH'' u pw],
             stdout := stdout s @ [''Successfully authenticated user: '' @ u]\<rparr>))"
proof (cases "api_initiate_auth c cl ''USER_PASSWORD_AUTH'' u pw")
  case (Inl ex)
  then show ?thesis by (cases ex) (simp_all add: authenticate_user_def py_defs)
next
  case (Inr r)
  then show ?thesis by (simp add: authenticate_user_def py_defs)
qed

lemmas spa_eqs = create_user_pool_eq create_app_client_eq create_user_eq authenticate_user_eq



text \<open>Reading a successful sequence backwards, one statement at a time.\<close>

lemma py_bind_InrE:
  assumes "py_bind m f s = (Inr r, s')"
  obtains v s1 where "m s = (Inr v, s1)" and "f v s1 = (Inr r, s')"
  using assms by (cases "m s") (auto simp: py_bind_def split: sum.splits)

lemma py_return_iff: "py_return v s = (x, s') \<longleftrightarrow> x = Inr v \<and> s' = s"
  by (auto simp: py_return_def)

lemma py_print_iff:
  "py_print l s = (x, s') \<longleftrightarrow> x = Inr () \<and> s' = s\<lparr>stdout := stdout s @ [l]\<rparr>"
  by (auto simp: py_print_def)

lemma create_user_pool_InrD:
  assumes "create_user_pool c n s = (Inr v, s')"
  shows "\<exists>r. api_create_user_pool c n 8 = Inr r \<and> v = UserPool_Id r
     \<and> calls s' = calls s @ [CreateUserPool n 8]"
  using assms unfolding create_user_pool_eq
  by (cases "api_create_user_pool c n 8") auto

lemma create_app_client_InrD:
  assumes "create_app_client c p n s = (Inr v, s')"
  shows "\<exists>r. api_create_user_pool_client c p n False
             [''ALLOW_USER_PASSWORD_AUTH'', ''ALLOW_REFRESH_TOKEN_AUTH''] None = Inr r
     \<and> v = UserPoolClient_ClientId r
     \<and> calls s' = calls s @ [CreateUserPoolClient p n False
             [''ALLOW_USER_PASSWORD_AUTH'', ''ALLOW_REFRESH_TOKEN_AUTH''] None]"
  using assms unfolding create_app_client_eq
  by (cases "api_create_user_pool_client c p n False
             [''ALLOW_USER_PASSWORD_AUTH'', ''ALLOW_REFRESH_TOKEN_AUTH''] None") auto

lemma create_user_InrD:
  assumes "create_user c p u t pw s = (Inr v, s')"
  shows "api_admin_create_user c p u t ''SUPPRESS'' = Inr ()
     \<and> api_admin_set_user_password c p u pw True = Inr ()
     \<and> calls s' = calls s @ [AdminCreateUser p u t ''SUPPRESS'',
                               AdminSetUserPassword p u pw True]"
  using assms unfolding create_user_eq
  by (cases "api_admin_create_user c p u t ''SUPPRESS''";
      cases "api_admin_set_user_password c p u pw True") auto

lemma authenticate_user_InrD:
  assumes "authenticate_user c cl u pw s = (Inr v, s')"
  shows "\<exists>r. api_initiate_auth c cl ''USER_PASSWORD_AUTH'' u pw = Inr r
     \<and> v = AuthenticationResult_AccessToken r
     \<and> calls s' = calls s @ [InitiateAuth cl ''USER_PASSWORD_AUTH'' u pw]"
  using assms unfolding authenticate_user_eq
  by (cases "api_initiate_auth c cl ''USER_PASSWORD_AUTH'' u pw") auto


lemma py_except_reraise_InrD:
  assumes "py_except m (\<lambda>ex. py_bind (py_print (t ex)) (\<lambda>u. py_raise ex)) s = (Inr r, s')"
  shows "m s = (Inr r, s')"
  using assms by (cases "m s") (auto simp: seq_defs split: sum.splits)

lemma get_aws_region_calls: "calls (snd (get_aws_region e s)) = calls s"
  by (cases "boto3_Session e"; cases "environ e ''AWS_REGION''")
     (auto simp: region_defs seq_defs split: option.splits sum.splits prod.splits)

lemma spa_steps_InrD:
  assumes "spa_steps c region s = (Inr cfg, s')"
  shows "\<exists>pool client auth1 auth2.
     api_create_user_pool c ''DemoUserPool'' 8 = Inr pool
     \<and> api_create_user_pool_client c (UserPool_Id pool) ''DemoClient'' False
          [''ALLOW_USER_PASSWORD_AUTH'', ''ALLOW_REFRESH_TOKEN_AUTH''] None = Inr client
     \<and> api_admin_set_user_password c (UserPool_Id pool) ''testuser1'' ''MyPassword123!'' True
          = Inr ()
     \<and> api_admin_set_user_password c (UserPool_Id pool) ''testuser2'' ''MyPassword123!'' True
          = Inr ()
     \<and> api_initiate_auth c (UserPoolClient_ClientId client) ''USER_PASSWORD_AUTH''
          ''testuser1'' ''MyPassword123!'' = Inr auth1
     \<and> api_initiate_auth c (UserPoolClient_ClientId client) ''USER_PASSWORD_AUTH''
          ''testuser2'' ''MyPassword123!'' = Inr auth2
     \<and> calls s' = calls s @
         [CreateUserPool ''DemoUserPool'' 8,
          CreateUserPoolClient (UserPool_Id pool) ''DemoClient'' False
            [''ALLOW_USER_PASSWORD_AUTH'', ''ALLOW_REFRESH_TOKEN_AUTH''] None,
          AdminCreateUser (UserPool_Id pool) ''testuser1'' ''Temp123!'' ''SUPPRESS'',
          AdminSetUserPassword (UserPool_Id pool) ''testuser1'' ''MyPassword123!'' True,
          InitiateAuth (UserPoolClient_ClientId client) ''USER_PASSWORD_AUTH'' ''testuser1''
            ''MyPassword123!'',
          AdminCreateUser (UserPool_Id pool) ''testuser2'' ''Temp123!'' ''SUPPRESS'',
          AdminSetUserPassword (UserPool_Id pool) ''testuser2'' ''MyPassword123!'' True,
          InitiateAuth (UserPoolClient_ClientId client) ''USER_PASSWORD_AUTH'' ''testuser2''
            ''MyPassword123!'']
     \<and> cfg = Dict [
       (''pool_id'', Str (UserPool_Id pool)),
       (''client_id'', Str (UserPoolClient_ClientId client)),
       (''discovery_url'', Str (''https://cognito-idp.'' @ region @ ''.amazonaws.com/''
            @ UserPool_Id pool @ ''/.well-known/openid-configuration'')),
       (''region'', Str region),
       (''user1'', Dict [(''username'', Str ''testuser1''), (''password'', Str ''MyPassword123!'')]),
       (''user2'', Dict [(''username'', Str ''testuser2''), (''password'', Str ''MyPassword123!'')]),
       (''access_tokens'',
          Dict [(''testuser1'', Str (AuthenticationResult_AccessToken auth1)),
                (''testuser2'', Str (AuthenticationResult_AccessToken auth2))])]"
  using assms unfolding spa_steps_def
  by (elim py_bind_InrE)
     (auto simp: py_return_iff py_print_iff
        dest!: create_user_pool_InrD create_app_client_InrD create_user_InrD
          authenticate_user_InrD)


lemma create_spa_pool_InrD:
  assumes "create_spa_pool e s = (Inr cfg, s')"
  shows "\<exists>region s1 c.
     get_aws_region e s = (Inr region, s1)
     \<and> boto3_client e ''cognito-idp'' region = Inr c
     \<and> spa_steps c region (s1\<lparr>stdout := stdout s1 @ [''Using AWS Region: '' @ region, []]\<rparr>)
         = (Inr cfg, s')"
  using assms unfolding create_spa_pool_def
  by (elim py_bind_InrE) (auto simp: py_print_iff dest!: py_except_reraise_InrD)

lemma sample_spa_run:
  "fst (create_spa_pool sample_env empty_state) = Inr sample_spa_result"
  by (simp add: create_spa_pool_def spa_steps_def spa_eqs seq_defs region_defs sample_env_def
      sample_client_def empty_state_def sample_spa_result_def)

section \<open>create\_spa\_pool\<close>

text \<open>
  Claim C6. Once \<open>testuser1\<close> is created and authenticated, a failure of any later provider
  call (creating \<open>testuser2\<close>, setting its password, authenticating it) makes
  \<open>create_spa_pool\<close> raise: it returns no record, although the call that gave the token of
  \<open>testuser1\<close> has been made.
\<close>

theorem create_spa_pool_no_partial_record:
  assumes "fst (get_aws_region e s) = Inr region"
    and "boto3_client e ''cognito-idp'' region = Inr c"
    and "api_create_user_pool c ''DemoUserPool'' 8 = Inr pool"
    and "api_create_user_pool_client c (UserPool_Id pool) ''DemoClient'' False
           [''ALLOW_USER_PASSWORD_AUTH'', ''ALLOW_REFRESH_TOKEN_AUTH''] None = Inr client"
    and "api_admin_create_user c (UserPool_Id pool) ''testuser1'' ''Temp123!'' ''SUPPRESS''
           = Inr ()"
    and "api_admin_set_user_password c (UserPool_Id pool) ''testuser1'' ''MyPassword123!'' True
           = Inr ()"
    and "api_initiate_auth c (UserPoolClient_ClientId client) ''USER_PASSWORD_AUTH''
           ''testuser1'' ''MyPassword123!'' = Inr auth1"
    and "api_admin_create_user c (UserPool_Id pool) ''testuser2'' ''Temp123!'' ''SUPPRESS''
           = Inl ex
         \<or> api_admin_set_user_password c (UserPool_Id pool) ''testuser2'' ''MyPassword123!''
              True = Inl ex
         \<or> api_initiate_auth c (UserPoolClient_ClientId client) ''USER_PASSWORD_AUTH''
              ''testuser2'' ''MyPassword123!'' = Inl ex"
  shows "(\<exists>raised. fst (create_spa_pool e s) = Inl raised)
         \<and> InitiateAuth (UserPoolClient_ClientId client) ''USER_PASSWORD_AUTH'' ''testuser1''
              ''MyPassword123!'' \<in> set (calls (snd (create_spa_pool e s)))"
proof -
  obtain s1 where r: "get_aws_region e s = (Inr region, s1)"
    using assms(1) by (cases "get_aws_region e s") simp
  show ?thesis
    using assms(2-8) r
    by (cases "api_admin_create_user c (UserPool_Id pool) ''testuser2'' ''Temp123!''
                 ''SUPPRESS''";
        cases "api_admin_set_user_password c (UserPool_Id pool) ''testuser2''
                 ''MyPassword123!'' True")
       (simp_all add: create_spa_pool_def spa_steps_def spa_eqs seq_defs)
qed

theorem create_spa_pool_no_partial_record_witness:
  "fst (get_aws_region env_user2_exists empty_state) = Inr ''us-east-1''
   \<and> boto3_client env_user2_exists ''cognito-idp'' ''us-east-1'' = Inr client_user2_exists
   \<and> api_initiate_auth client_user2_exists ''4h57client'' ''USER_PASSWORD_AUTH'' ''testuser1''
        ''MyPassword123!'' = Inr (InitiateAuthResponse ''token-of-testuser1'')
   \<and> api_admin_create_user client_user2_exists ''us-west-2_aBcD12345'' ''testuser2''
        ''Temp123!'' ''SUPPRESS''
       = Inl (ClientError ''UsernameExistsException'' ''User account already exists''
                ''An error occurred (UsernameExistsException) when calling the AdminCreateUser operation: User account already exists'')
   \<and> (\<exists>raised. fst (create_spa_pool env_user2_exists empty_state) = Inl raised)
   \<and> InitiateAuth ''4h57client'' ''USER_PASSWORD_AUTH'' ''testuser1'' ''MyPassword123!''
        \<in> set (calls (snd (create_spa_pool env_user2_exists empty_state)))"
  using create_spa_pool_no_partial_record [of env_user2_exists empty_state "''us-east-1''"
      client_user2_exists "UserPoolResponse ''us-west-2_aBcD12345''"
      "UserPoolClientResponse ''4h57client'' ''s3cr3t''"
      "InitiateAuthResponse ''token-of-testuser1''"
      "ClientError ''UsernameExistsException'' ''User account already exists''
         ''An error occurred (UsernameExistsException) when calling the AdminCreateUser operation: User account already exists''"]
  by (simp add: region_defs seq_defs env_user2_exists_def client_user2_exists_def sample_env_def
      sample_client_def empty_state_def)


text \<open>
  Claim C10. When \<open>create_spa_pool\<close> returns a record, the run made exactly eight provider
  calls: for each of \<open>testuser1\<close> and \<open>testuser2\<close> the permanent password given to
  \<open>admin_set_user_password\<close> and the password given to \<open>initiate_auth\<close> are both
  \<open>MyPassword123!\<close>, the password the record reports for that user; both calls succeeded,
  and the tokens of the record are the tokens those two authentications returned.
\<close>

theorem create_spa_pool_passwords:
  assumes "fst (create_spa_pool e s) = Inr cfg"
  shows "\<exists>region c pool client auth1 auth2.
     fst (get_aws_region e s) = Inr region
     \<and> boto3_client e ''cognito-idp'' region = Inr c
     \<and> api_create_user_pool c ''DemoUserPool'' 8 = Inr pool
     \<and> api_create_user_pool_client c (UserPool_Id pool) ''DemoClient'' False
          [''ALLOW_USER_PASSWORD_AUTH'', ''ALLOW_REFRESH_TOKEN_AUTH''] None = Inr client
     \<and> calls (snd (create_spa_pool e s)) = calls s @
         [CreateUserPool ''DemoUserPool'' 8,
          CreateUserPoolClient (UserPool_Id pool) ''DemoClient'' False
            [''ALLOW_USER_PASSWORD_AUTH'', ''ALLOW_REFRESH_TOKEN_AUTH''] None,
          AdminCreateUser (UserPool_Id pool) ''testuser1'' ''Temp123!'' ''SUPPRESS'',
          AdminSetUserPassword (UserPool_Id pool) ''testuser1'' ''MyPassword123!'' True,
          InitiateAuth (UserPoolClient_ClientId client) ''USER_PASSWORD_AUTH'' ''testuser1''
            ''MyPassword123!'',
          AdminCreateUser (UserPool_Id pool) ''testuser2'' ''Temp123!'' ''SUPPRESS'',
          AdminSetUserPassword (UserPool_Id pool) ''testuser2'' ''MyPassword123!'' True,
          InitiateAuth (UserPoolClient_ClientId client) ''USER_PASSWORD_AUTH'' ''testuser2''
            ''MyPassword123!'']
     \<and> api_admin_set_user_password c (UserPool_Id pool) ''testuser1'' ''MyPassword123!'' True
          = Inr ()
     \<and> api_admin_set_user_password c (UserPool_Id pool) ''testuser2'' ''MyPassword123!'' True
          = Inr ()
     \<and> api_initiate_auth c (UserPoolClient_ClientId client) ''USER_PASSWORD_AUTH''
          ''testuser1'' ''MyPassword123!'' = Inr auth1
     \<and> api_initiate_auth c (UserPoolClient_ClientId client) ''USER_PASSWORD_AUTH''
          ''testuser2'' ''MyPassword123!'' = Inr auth2
     \<and> dict_get cfg ''user1''
          = Some (Dict [(''username'', Str ''testuser1''), (''password'', Str ''MyPassword123!'')])
     \<and> dict_get cfg ''user2''
          = Some (Dict [(''username'', Str ''testuser2''), (''password'', Str ''MyPassword123!'')])
     \<and> dict_get cfg ''access_tokens''
          = Some (Dict [(''testuser1'', Str (AuthenticationResult_AccessToken auth1)),
                        (''testuser2'', Str (AuthenticationResult_AccessToken auth2))])"
proof -
  obtain s' where run: "create_spa_pool e s = (Inr cfg, s')"
    using assms by (cases "create_spa_pool e s") simp
  from create_spa_pool_InrD [OF run] obtain region s1 c
    where r: "get_aws_region e s = (Inr region, s1)"
      and c: "boto3_client e ''cognito-idp'' region = Inr c"
      and steps: "spa_steps c region
                    (s1\<lparr>stdout := stdout s1 @ [''Using AWS Region: '' @ region, []]\<rparr>)
                  = (Inr cfg, s')"
    by blast
  have s1: "calls s1 = calls s"
    using get_aws_region_calls [of e s] r by simp
  from spa_steps_InrD [OF steps] show ?thesis
    apply (elim exE conjE)
    subgoal for pool client auth1 auth2
      apply (rule exI [of _ region], rule exI [of _ c], rule exI [of _ pool])
      apply (rule exI [of _ client], rule exI [of _ auth1], rule exI [of _ auth2])
      apply (simp add: r c s1 run)
      done
    done
qed

theorem create_spa_pool_passwords_witness:
  "fst (create_spa_pool sample_env empty_state) = Inr sample_spa_result
   \<and> (\<exists>region c pool client auth1 auth2.
     fst (get_aws_region sample_env empty_state) = Inr region
     \<and> boto3_client sample_env ''cognito-idp'' region = Inr c
     \<and> api_create_user_pool c ''DemoUserPool'' 8 = Inr pool
     \<and> api_create_user_pool_client c (UserPool_Id pool) ''DemoClient'' False
          [''ALLOW_USER_PASSWORD_AUTH'', ''ALLOW_REFRESH_TOKEN_AUTH''] None = Inr client
     \<and> calls (snd (create_spa_pool sample_env empty_state)) = calls empty_state @
         [CreateUserPool ''DemoUserPool'' 8,
          CreateUserPoolClient (UserPool_Id pool) ''DemoClient'' False
            [''ALLOW_USER_PASSWORD_AUTH'', ''ALLOW_REFRESH_TOKEN_AUTH''] None,
          AdminCreateUser (UserPool_Id pool) ''testuser1'' ''Temp123!'' ''SUPPRESS'',
          AdminSetUserPassword (UserPool_Id pool) ''testuser1'' ''MyPassword123!'' True,
          InitiateAuth (UserPoolClient_ClientId client) ''USER_PASSWORD_AUTH'' ''testuser1''
            ''MyPassword123!'',
          AdminCreateUser (UserPool_Id pool) ''testuser2'' ''Temp123!'' ''SUPPRESS'',
          AdminSetUserPassword (UserPool_Id pool) ''testuser2'' ''MyPassword123!'' True,
          InitiateAuth (UserPoolClient_ClientId client) ''USER_PASSWORD_AUTH'' ''testuser2''
            ''MyPassword123!'']
     \<and> api_admin_set_user_password c (UserPool_Id pool) ''testuser1'' ''MyPassword123!'' True
          = Inr ()
     \<and> api_admin_set_user_password c (UserPool_Id pool) ''testuser2'' ''MyPassword123!'' True
          = Inr ()
     \<and> api_initiate_auth c (UserPoolClient_ClientId client) ''USER_PASSWORD_AUTH''
          ''testuser1'' ''MyPassword123!'' = Inr auth1
     \<and> api_initiate_auth c (UserPoolClient_ClientId client) ''USER_PASSWORD_AUTH''
          ''testuser2'' ''MyPassword123!'' = Inr auth2
     \<and> dict_get sample_spa_result ''user1''
          = Some (Dict [(''username'', Str ''testuser1''), (''password'', Str ''MyPassword123!'')])
     \<and> dict_get sample_spa_result ''user2''
          = Some (Dict [(''username'', Str ''testuser2''), (''password'', Str ''MyPassword123!'')])
     \<and> dict_get sample_spa_result ''access_tokens''
          = Some (Dict [(''testuser1'', Str (AuthenticationResult_AccessToken auth1)),
                        (''testuser2'', Str (AuthenticationResult_AccessToken auth2))]))"
  using sample_spa_run create_spa_pool_passwords [OF sample_spa_run]
  by (rule conjI)

section \<open>The steps of the machine-to-machine script, by outcome of their provider calls\<close>

lemma m2m_create_domain_eq:
  "m2m_create_domain c d p s =
     (case api_create_user_pool_domain c d p of
        Inl ex \<Rightarrow>
          if is_ClientError ex \<and> error_code ex = ''InvalidParameterException''
          then (Inr (),
                s\<lparr>calls := calls s @ [CreateUserPoolDomain d p],
                  stdout := stdout s @ [warning_sign @ ''  Domain '' @ d
                                          @ '' might already exist, continuing...'']\<rparr>)
          else (Inl ex, s\<lparr>calls := calls s @ [CreateUserPoolDomain d p]\<rparr>)
      | Inr u \<Rightarrow>
          (Inr (),
           s\<lparr>calls := calls s @ [CreateUserPoolDomain d p],
             stdout := stdout s @ [check_mark @ '' Domain created: '' @ d]\<rparr>))"
proof (cases "api_create_user_pool_domain c d p")
  case (Inl ex)
  then show ?thesis by (cases ex) (simp_all add: m2m_create_domain_def py_defs)
next
  case (Inr u)
  then show ?thesis by (simp add: m2m_create_domain_def py_defs)
qed

lemma m2m_create_test_user_eq:
  "m2m_create_test_user c p s =
     (case api_admin_create_user c p ''m2m-test-user'' ''TempPass123!'' ''SUPPRESS'' of
        Inl ex \<Rightarrow>
          if is_ClientError ex \<and> error_code ex = ''UsernameExistsException''
          then (Inr (),
                s\<lparr>calls := calls s
                     @ [AdminCreateUser p ''m2m-test-user'' ''TempPass123!'' ''SUPPRESS''],
                  stdout := stdout s
                     @ [warning_sign @ ''  Test user already exists, continuing...'']\<rparr>)
          else (Inl ex,
                s\<lparr>calls := calls s
                     @ [AdminCreateUser p ''m2m-test-user'' ''TempPass123!'' ''SUPPRESS'']\<rparr>)
      | Inr u \<Rightarrow>
          (case api_admin_set_user_password c p ''m2m-test-user'' ''TestPass123!'' True of
             Inl ex \<Rightarrow>
               if is_ClientError ex \<and> error_code ex = ''UsernameExistsException''
               then (Inr (),
                     s\<lparr>calls := calls s
                          @ [AdminCreateUser p ''m2m-test-user'' ''TempPass123!'' ''SUPPRESS'',
                             AdminSetUserPassword p ''m2m-test-user'' ''TestPass123!'' True],
                       stdout := stdout s
                          @ [warning_sign @ ''  Test user already exists, continuing...'']\<rparr>)
               else (Inl ex,
                     s\<lparr>calls := calls s
                          @ [AdminCreateUser p ''m2m-test-user'' ''TempPass123!'' ''SUPPRESS'',
                             AdminSetUserPassword p ''m2m-test-user'' ''TestPass123!'' True]\<rparr>)
           | Inr v \<Rightarrow>
               (Inr (),
                s\<lparr>calls := calls s
                     @ [AdminCreateUser p ''m2m-test-user'' ''TempPass123!'' ''SUPPRESS'',
                        AdminSetUserPassword p ''m2m-test-user'' ''TestPass123!'' True],
                  stdout := stdout s
                     @ [check_mark @ '' Test user created: m2m-test-user / TestPass123!'']\<rparr>)))"
proof (cases "api_admin_create_user c p ''m2m-test-user'' ''TempPass123!'' ''SUPPRESS''")
  case (Inl ex)
  then show ?thesis by (cases ex) (simp_all add: m2m_create_test_user_def py_defs)
next
  case created: (Inr u)
  show ?thesis
  proof (cases "api_admin_set_user_password c p ''m2m-test-user'' ''TestPass123!'' True")
    case (Inl ex)
    with created show ?thesis by (cases ex) (simp_all add: m2m_create_test_user_def py_defs)
  next
    case (Inr v)
    with created show ?thesis by (simp add: m2m_create_test_user_def py_defs)
  qed
qed

lemmas m2m_eqs = m2m_create_domain_eq m2m_create_test_user_eq

lemma py_return_InrD:
  assumes "py_return v s = (Inr x, s')"
  shows "x = v \<and> files s' = files s"
  using assms by (auto simp: py_return_def)

lemma py_print_InrD:
  assumes "py_print l s = (Inr x, s')"
  shows "files s' = files s"
  using assms by (auto simp: py_print_def)

lemma provider_call_InrD:
  assumes "provider_call a outcome s = (Inr v, s')"
  shows "outcome = Inr v \<and> files s' = files s"
  using assms by (auto simp: provider_call_def)

lemma write_file_InrD:
  assumes "write_file e name doc s = (Inr x, s')"
  shows "files s' = (files s)(name \<mapsto> doc)"
  using assms by (cases "file_write e name") (auto simp: write_file_def)

lemma m2m_create_domain_InrD:
  assumes "m2m_create_domain c d p s = (Inr v, s')"
  shows "files s' = files s"
  using assms unfolding m2m_create_domain_eq
  by (cases "api_create_user_pool_domain c d p") (auto split: if_splits)

lemma m2m_create_domain_outcome:
  assumes "m2m_create_domain c d p s = (Inr v, s')"
  shows "domain_tolerated (api_create_user_pool_domain c d p)"
  using assms unfolding m2m_create_domain_eq
  by (cases "api_create_user_pool_domain c d p")
     (auto simp: domain_tolerated_def split: if_splits)

lemma m2m_create_test_user_InrD:
  assumes "m2m_create_test_user c p s = (Inr v, s')"
  shows "files s' = files s"
  using assms unfolding m2m_create_test_user_eq
  by (cases "api_admin_create_user c p ''m2m-test-user'' ''TempPass123!'' ''SUPPRESS''";
      cases "api_admin_set_user_password c p ''m2m-test-user'' ''TestPass123!'' True")
     (auto split: if_splits)

lemma m2m_steps_InrD:
  assumes "m2m_steps e c s = (Inr (Some r), s')"
  shows "\<exists>pool rs client.
     api_create_user_pool c POOL_NAME 8 = Inr pool
     \<and> api_create_resource_server c (UserPool_Id pool) RESOURCE_SERVER_IDENTIFIER
           RESOURCE_SERVER_NAME
           [(''read'', ''Read access to API resources''),
            (''write'', ''Write access to API resources''),
            (''admin'', ''Administrative access to API resources'')] = Inr rs
     \<and> api_create_user_pool_client c (UserPool_Id pool) CLIENT_NAME True
           [''ALLOW_ADMIN_USER_PASSWORD_AUTH'']
           (Some ([''COGNITO''], [''client_credentials''],
                  [RESOURCE_SERVER_IDENTIFIER @ ''/read'',
                   RESOURCE_SERVER_IDENTIFIER @ ''/write'',
                   RESOURCE_SERVER_IDENTIFIER @ ''/admin''], True)) = Inr client
     \<and> files s' ''m2m_credentials.json'' = Some (JsonDocument (Dict [
           (''userPoolId'', Str (UserPool_Id pool)),
           (''resourceServerId'', Str (ResourceServer_Identifier rs)),
           (''clientId'', Str (UserPoolClient_ClientId client)),
           (''clientSecret'', Str (UserPoolClient_ClientSecret client)),
           (''region'', Str REGION),
           (''scopes'', List [Str (RESOURCE_SERVER_IDENTIFIER @ ''/read''),
                              Str (RESOURCE_SERVER_IDENTIFIER @ ''/write''),
                              Str (RESOURCE_SERVER_IDENTIFIER @ ''/admin'')])]))
     \<and> r = Dict [
           (''pool_id'', Str (UserPool_Id pool)),
           (''client_id'', Str (UserPoolClient_ClientId client)),
           (''client_secret'', Str (UserPoolClient_ClientSecret client)),
           (''domain_name'', Str (''m2m-domain-'' @ last5 (str_int (time_time e)))),
           (''resource_server_id'', Str (ResourceServer_Identifier rs))]"
  using assms unfolding m2m_steps_def
  apply (elim py_bind_InrE)
  apply (drule py_return_InrD py_print_InrD provider_call_InrD write_file_InrD
      m2m_create_domain_InrD m2m_create_test_user_InrD)+
  apply (elim conjE)
  apply auto
  done

lemma m2m_steps_domain:
  assumes "m2m_steps e c s = (Inr v, s')"
  shows "\<exists>pool.
     api_create_user_pool c POOL_NAME 8 = Inr pool
     \<and> domain_tolerated
          (api_create_user_pool_domain c (''m2m-domain-'' @ last5 (str_int (time_time e))) (UserPool_Id pool))"
  using assms unfolding m2m_steps_def
  apply (elim py_bind_InrE)
  apply (drule m2m_create_domain_outcome)
  apply (drule py_return_InrD provider_call_InrD)+
  apply (elim conjE)
  apply auto
  done

lemma m2m_failed_None: "fst (m2m_failed ex s) = Inr None"
  by (cases ex) (simp_all add: seq_defs)

lemma create_m2m_pool_None_or_steps:
  assumes "boto3_client e ''cognito-idp'' REGION = Inr c"
  shows "fst (create_m2m_pool e s) = Inr None
         \<or> (\<exists>v s'. m2m_steps e c s = (Inr v, s'))"
proof (cases "m2m_steps e c s")
  case (Pair x s1)
  show ?thesis
  proof (cases x)
    case (Inl ex)
    with Pair assms m2m_failed_None [of ex s1] show ?thesis
      by (simp add: create_m2m_pool_def py_bind_def py_except_def)
  next
    case (Inr v)
    with Pair show ?thesis by simp
  qed
qed

lemma py_except_m2m_failed_InrD:
  assumes "py_except m m2m_failed s = (Inr (Some r), s')"
  shows "m s = (Inr (Some r), s')"
proof (cases "m s")
  case (Pair x s1)
  show ?thesis
  proof (cases x)
    case (Inl ex)
    with Pair assms show ?thesis
      by (cases ex) (simp_all add: seq_defs)
  next
    case (Inr v)
    with Pair assms show ?thesis
      by (simp add: seq_defs)
  qed
qed

lemma create_m2m_pool_InrD:
  assumes "fst (create_m2m_pool e s) = Inr (Some r)"
  shows "\<exists>c pool rs client.
     boto3_client e ''cognito-idp'' REGION = Inr c
     \<and> api_create_user_pool c POOL_NAME 8 = Inr pool
     \<and> api_create_resource_server c (UserPool_Id pool) RESOURCE_SERVER_IDENTIFIER
           RESOURCE_SERVER_NAME
           [(''read'', ''Read access to API resources''),
            (''write'', ''Write access to API resources''),
            (''admin'', ''Administrative access to API resources'')] = Inr rs
     \<and> api_create_user_pool_client c (UserPool_Id pool) CLIENT_NAME True
           [''ALLOW_ADMIN_USER_PASSWORD_AUTH'']
           (Some ([''COGNITO''], [''client_credentials''],
                  [RESOURCE_SERVER_IDENTIFIER @ ''/read'',
                   RESOURCE_SERVER_IDENTIFIER @ ''/write'',
                   RESOURCE_SERVER_IDENTIFIER @ ''/admin''], True)) = Inr client
     \<and> files (snd (create_m2m_pool e s)) ''m2m_credentials.json''
          = Some (JsonDocument (Dict [
           (''userPoolId'', Str (UserPool_Id pool)),
           (''resourceServerId'', Str (ResourceServer_Identifier rs)),
           (''clientId'', Str (UserPoolClient_ClientId client)),
           (''clientSecret'', Str (UserPoolClient_ClientSecret client)),
           (''region'', Str REGION),
           (''scopes'', List [Str (RESOURCE_SERVER_IDENTIFIER @ ''/read''),
                              Str (RESOURCE_SERVER_IDENTIFIER @ ''/write''),
                              Str (RESOURCE_SERVER_IDENTIFIER @ ''/admin'')])]))
     \<and> r = Dict [
           (''pool_id'', Str (UserPool_Id pool)),
           (''client_id'', Str (UserPoolClient_ClientId client)),
           (''client_secret'', Str (UserPoolClient_ClientSecret client)),
           (''domain_name'', Str (''m2m-domain-'' @ last5 (str_int (time_time e)))),
           (''resource_server_id'', Str (ResourceServer_Identifier rs))]"
proof -
  obtain s' where run: "create_m2m_pool e s = (Inr (Some r), s')"
    using assms by (cases "create_m2m_pool e s") simp
  then obtain c where c: "boto3_client e ''cognito-idp'' REGION = Inr c"
    and steps: "m2m_steps e c s = (Inr (Some r), s')"
    unfolding create_m2m_pool_def
    by (elim py_bind_InrE) (auto dest!: py_except_m2m_failed_InrD)
  from m2m_steps_InrD [OF steps] c run show ?thesis
    by auto
qed

lemma create_m2m_pool_all_succeed:
  assumes c: "boto3_client e ''cognito-idp'' REGION = Inr c"
    and pool: "api_create_user_pool c POOL_NAME 8 = Inr pool"
    and rs: "api_create_resource_server c (UserPool_Id pool) RESOURCE_SERVER_IDENTIFIER
           RESOURCE_SERVER_NAME
           [(''read'', ''Read access to API resources''),
            (''write'', ''Write access to API resources''),
            (''admin'', ''Administrative access to API resources'')] = Inr rs"
    and client: "api_create_user_pool_client c (UserPool_Id pool) CLIENT_NAME True
           [''ALLOW_ADMIN_USER_PASSWORD_AUTH'']
           (Some ([''COGNITO''], [''client_credentials''],
                  [RESOURCE_SERVER_IDENTIFIER @ ''/read'',
                   RESOURCE_SERVER_IDENTIFIER @ ''/write'',
                   RESOURCE_SERVER_IDENTIFIER @ ''/admin''], True)) = Inr client"
    and dom: "api_create_user_pool_domain c (''m2m-domain-'' @ last5 (str_int (time_time e))) (UserPool_Id pool)
           = Inr ()"
    and user: "api_admin_create_user c (UserPool_Id pool) ''m2m-test-user'' ''TempPass123!''
           ''SUPPRESS'' = Inr ()"
    and pw: "api_admin_set_user_password c (UserPool_Id pool) ''m2m-test-user''
           ''TestPass123!'' True = Inr ()"
    and w1: "file_write e ''pool.json'' = Written"
    and w2: "file_write e ''resource_server.json'' = Written"
    and w3: "file_write e ''m2m_client.json'' = Written"
    and w4: "file_write e ''m2m_credentials.json'' = Written"
  shows "fst (create_m2m_pool e s) = Inr (Some (Dict [
           (''pool_id'', Str (UserPool_Id pool)),
           (''client_id'', Str (UserPoolClient_ClientId client)),
           (''client_secret'', Str (UserPoolClient_ClientSecret client)),
           (''domain_name'', Str (''m2m-domain-'' @ last5 (str_int (time_time e)))),
           (''resource_server_id'', Str (ResourceServer_Identifier rs))]))
     \<and> files (snd (create_m2m_pool e s)) ''m2m_credentials.json'' = Some (JsonDocument (Dict [
           (''userPoolId'', Str (UserPool_Id pool)),
           (''resourceServerId'', Str (ResourceServer_Identifier rs)),
           (''clientId'', Str (UserPoolClient_ClientId client)),
           (''clientSecret'', Str (UserPoolClient_ClientSecret client)),
           (''region'', Str REGION),
           (''scopes'', List [Str (RESOURCE_SERVER_IDENTIFIER @ ''/read''),
                              Str (RESOURCE_SERVER_IDENTIFIER @ ''/write''),
                              Str (RESOURCE_SERVER_IDENTIFIER @ ''/admin'')])]))"
  using assms
  by (simp add: create_m2m_pool_def m2m_steps_def m2m_eqs seq_defs provider_call_def
      write_file_def)

lemma sample_m2m_run:
  "fst (create_m2m_pool sample_env empty_state) = Inr (Some sample_m2m_result)"
  using create_m2m_pool_all_succeed [where e = sample_env and c = sample_client
      and pool = "UserPoolResponse ''us-west-2_aBcD12345''"
      and rs = "ResourceServerResponse ''https://api.myapp.com''"
      and client = "UserPoolClientResponse ''4h57client'' ''s3cr3t''"
      and s = empty_state]
  by (simp add: sample_m2m_result_def sample_env_def sample_client_def REGION_def POOL_NAME_def RESOURCE_SERVER_IDENTIFIER_def
      RESOURCE_SERVER_NAME_def CLIENT_NAME_def last5_def str_int_def str_nat.simps
      digit_char_def)

section \<open>create\_m2m\_pool\<close>

text \<open>
  Claim C2. The provider answers \<open>create_resource_server\<close> with the identifier of the
  request (section 4.1 of the specification: the output echoes the input identifier). With
  such a provider, in every successful run of \<open>create_m2m_pool\<close> the \<open>resource_server_id\<close> of
  the returned record is \<open>https://api.myapp.com\<close>, and the \<open>scopes\<close> array written to
  \<open>m2m_credentials.json\<close> is exactly \<open>https://api.myapp.com/read\<close>,
  \<open>https://api.myapp.com/write\<close>, \<open>https://api.myapp.com/admin\<close>, in that order.
\<close>

theorem create_m2m_pool_identifier_and_scopes:
  assumes run: "fst (create_m2m_pool e s) = Inr (Some r)"
    and c: "boto3_client e ''cognito-idp'' REGION = Inr c"
    and echo: "\<forall>pool_id response.
           api_create_resource_server c pool_id RESOURCE_SERVER_IDENTIFIER RESOURCE_SERVER_NAME
             [(''read'', ''Read access to API resources''),
            (''write'', ''Write access to API resources''),
            (''admin'', ''Administrative access to API resources'')] = Inr response
           \<longrightarrow> ResourceServer_Identifier response = RESOURCE_SERVER_IDENTIFIER"
  shows "dict_get r ''resource_server_id'' = Some (Str ''https://api.myapp.com'')
     \<and> (\<exists>credentials.
            files (snd (create_m2m_pool e s)) ''m2m_credentials.json''
              = Some (JsonDocument credentials)
            \<and> dict_get credentials ''scopes''
                = Some (List [Str ''https://api.myapp.com/read'',
                          Str ''https://api.myapp.com/write'',
                          Str ''https://api.myapp.com/admin'']))"
proof -
  from create_m2m_pool_InrD [OF run] c obtain pool rs client
    where rs: "api_create_resource_server c (UserPool_Id pool) RESOURCE_SERVER_IDENTIFIER
           RESOURCE_SERVER_NAME
           [(''read'', ''Read access to API resources''),
            (''write'', ''Write access to API resources''),
            (''admin'', ''Administrative access to API resources'')] = Inr rs"
      and credentials: "files (snd (create_m2m_pool e s)) ''m2m_credentials.json''
          = Some (JsonDocument (Dict [
           (''userPoolId'', Str (UserPool_Id pool)),
           (''resourceServerId'', Str (ResourceServer_Identifier rs)),
           (''clientId'', Str (UserPoolClient_ClientId client)),
           (''clientSecret'', Str (UserPoolClient_ClientSecret client)),
           (''region'', Str REGION),
           (''scopes'', List [Str (RESOURCE_SERVER_IDENTIFIER @ ''/read''),
                              Str (RESOURCE_SERVER_IDENTIFIER @ ''/write''),
                              Str (RESOURCE_SERVER_IDENTIFIER @ ''/admin'')])]))"
      and r: "r = Dict [
           (''pool_id'', Str (UserPool_Id pool)),
           (''client_id'', Str (UserPoolClient_ClientId client)),
           (''client_secret'', Str (UserPoolClient_ClientSecret client)),
           (''domain_name'', Str (''m2m-domain-'' @ last5 (str_int (time_time e)))),
           (''resource_server_id'', Str (ResourceServer_Identifier rs))]"
    by auto
  from echo rs have "ResourceServer_Identifier rs = RESOURCE_SERVER_IDENTIFIER"
    by blast
  with credentials r show ?thesis
    by (simp add: RESOURCE_SERVER_IDENTIFIER_def)
qed

theorem create_m2m_pool_identifier_and_scopes_witness:
  "fst (create_m2m_pool sample_env empty_state) = Inr (Some sample_m2m_result)
   \<and> boto3_client sample_env ''cognito-idp'' REGION = Inr sample_client
   \<and> api_create_resource_server sample_client ''us-west-2_aBcD12345''
        RESOURCE_SERVER_IDENTIFIER RESOURCE_SERVER_NAME
        [(''read'', ''Read access to API resources''),
            (''write'', ''Write access to API resources''),
            (''admin'', ''Administrative access to API resources'')]
       = Inr (ResourceServerResponse RESOURCE_SERVER_IDENTIFIER)
   \<and> dict_get sample_m2m_result ''resource_server_id'' = Some (Str ''https://api.myapp.com'')
     \<and> (\<exists>credentials.
            files (snd (create_m2m_pool sample_env empty_state)) ''m2m_credentials.json''
              = Some (JsonDocument credentials)
            \<and> dict_get credentials ''scopes''
                = Some (List [Str ''https://api.myapp.com/read'',
                          Str ''https://api.myapp.com/write'',
                          Str ''https://api.myapp.com/admin'']))"
proof -
  have c: "boto3_client sample_env ''cognito-idp'' REGION = Inr sample_client"
    by (simp add: sample_env_def)
  have echo: "\<forall>pool_id response.
           api_create_resource_server sample_client pool_id RESOURCE_SERVER_IDENTIFIER RESOURCE_SERVER_NAME
             [(''read'', ''Read access to API resources''),
            (''write'', ''Write access to API resources''),
            (''admin'', ''Administrative access to API resources'')] = Inr response
           \<longrightarrow> ResourceServer_Identifier response = RESOURCE_SERVER_IDENTIFIER"
    by (simp add: sample_client_def)
  have answer: "api_create_resource_server sample_client ''us-west-2_aBcD12345''
        RESOURCE_SERVER_IDENTIFIER RESOURCE_SERVER_NAME
        [(''read'', ''Read access to API resources''),
            (''write'', ''Write access to API resources''),
            (''admin'', ''Administrative access to API resources'')]
       = Inr (ResourceServerResponse RESOURCE_SERVER_IDENTIFIER)"
    by (simp add: sample_client_def)
  from sample_m2m_run c answer
    create_m2m_pool_identifier_and_scopes [OF sample_m2m_run c echo]
  show ?thesis by simp
qed

text \<open>
  Claim C3. When the pool, the resource server and the client are created and
  \<open>create_user_pool_domain\<close> raises a \<open>ClientError\<close> whose code is not
  \<open>InvalidParameterException\<close>, \<open>create_m2m_pool\<close> returns \<open>None\<close> and raises nothing. The
  domain call is reached when the three files before it are written, and then the run ends
  in exactly this state: the domain call is the last provider call (no test user is
  created), the credentials file is not written, and the last line printed reports the code
  and the message of the error.
\<close>

theorem create_m2m_pool_aborts_on_domain_error:
  assumes c: "boto3_client e ''cognito-idp'' REGION = Inr c"
    and pool: "api_create_user_pool c POOL_NAME 8 = Inr pool"
    and rs: "api_create_resource_server c (UserPool_Id pool) RESOURCE_SERVER_IDENTIFIER
           RESOURCE_SERVER_NAME
           [(''read'', ''Read access to API resources''),
            (''write'', ''Write access to API resources''),
            (''admin'', ''Administrative access to API resources'')] = Inr rs"
    and client: "api_create_user_pool_client c (UserPool_Id pool) CLIENT_NAME True
           [''ALLOW_ADMIN_USER_PASSWORD_AUTH'']
           (Some ([''COGNITO''], [''client_credentials''],
                  [RESOURCE_SERVER_IDENTIFIER @ ''/read'',
                   RESOURCE_SERVER_IDENTIFIER @ ''/write'',
                   RESOURCE_SERVER_IDENTIFIER @ ''/admin''], True)) = Inr client"
    and dom: "api_create_user_pool_domain c (''m2m-domain-'' @ last5 (str_int (time_time e))) (UserPool_Id pool)
           = Inl (ClientError code msg report)"
    and code: "code \<noteq> ''InvalidParameterException''"
  shows "fst (create_m2m_pool e s) = Inr None
     \<and> (file_write e ''pool.json'' = Written
        \<and> file_write e ''resource_server.json'' = Written
        \<and> file_write e ''m2m_client.json'' = Written
        \<longrightarrow> create_m2m_pool e s =
         (Inr None,
          s\<lparr>calls := calls s @
             [CreateUserPool POOL_NAME 8,
           CreateResourceServer (UserPool_Id pool) RESOURCE_SERVER_IDENTIFIER RESOURCE_SERVER_NAME
            [(''read'', ''Read access to API resources''),
            (''write'', ''Write access to API resources''),
            (''admin'', ''Administrative access to API resources'')],
           CreateUserPoolClient (UserPool_Id pool) CLIENT_NAME True
            [''ALLOW_ADMIN_USER_PASSWORD_AUTH'']
            (Some ([''COGNITO''], [''client_credentials''],
                  [RESOURCE_SERVER_IDENTIFIER @ ''/read'',
                   RESOURCE_SERVER_IDENTIFIER @ ''/write'',
                   RESOURCE_SERVER_IDENTIFIER @ ''/admin''], True)),
           CreateUserPoolDomain (''m2m-domain-'' @ last5 (str_int (time_time e))) (UserPool_Id pool)],
            files := (files s)(''pool.json'' \<mapsto> PoolDocument pool,
                               ''resource_server.json'' \<mapsto> ResourceServerDocument rs,
                               ''m2m_client.json'' \<mapsto> ClientDocument client),
            stdout := stdout s @
              [''Creating User Pool...'',
               check_mark @ '' User Pool created with ID: '' @ UserPool_Id pool,
               ''Creating Resource Server with custom scopes...'',
               check_mark @ '' Resource Server created with ID: ''
                 @ ResourceServer_Identifier rs,
               ''Creating M2M App Client...'',
               check_mark @ '' M2M Client created with ID: '' @ UserPoolClient_ClientId client,
               ''Creating User Pool Domain: '' @ (''m2m-domain-'' @ last5 (str_int (time_time e))),
               cross_mark @ '' AWS Error: '' @ code @ '' - '' @ msg]\<rparr>))"
proof (intro conjI impI)
  show "fst (create_m2m_pool e s) = Inr None"
  proof (rule ccontr)
    assume "fst (create_m2m_pool e s) \<noteq> Inr None"
    with create_m2m_pool_None_or_steps [OF c]
    obtain v s' where "m2m_steps e c s = (Inr v, s')"
      by blast
    from m2m_steps_domain [OF this] pool dom code show False
      by (auto simp: domain_tolerated_def)
  qed
next
  assume "file_write e ''pool.json'' = Written
        \<and> file_write e ''resource_server.json'' = Written
        \<and> file_write e ''m2m_client.json'' = Written"
  with c pool rs client dom code
  show "create_m2m_pool e s =
         (Inr None,
          s\<lparr>calls := calls s @
             [CreateUserPool POOL_NAME 8,
           CreateResourceServer (UserPool_Id pool) RESOURCE_SERVER_IDENTIFIER RESOURCE_SERVER_NAME
            [(''read'', ''Read access to API resources''),
            (''write'', ''Write access to API resources''),
            (''admin'', ''Administrative access to API resources'')],
           CreateUserPoolClient (UserPool_Id pool) CLIENT_NAME True
            [''ALLOW_ADMIN_USER_PASSWORD_AUTH'']
            (Some ([''COGNITO''], [''client_credentials''],
                  [RESOURCE_SERVER_IDENTIFIER @ ''/read'',
                   RESOURCE_SERVER_IDENTIFIER @ ''/write'',
                   RESOURCE_SERVER_IDENTIFIER @ ''/admin''], True)),
           CreateUserPoolDomain (''m2m-domain-'' @ last5 (str_int (time_time e))) (UserPool_Id pool)],
            files := (files s)(''pool.json'' \<mapsto> PoolDocument pool,
                               ''resource_server.json'' \<mapsto> ResourceServerDocument rs,
                               ''m2m_client.json'' \<mapsto> ClientDocument client),
            stdout := stdout s @
              [''Creating User Pool...'',
               check_mark @ '' User Pool created with ID: '' @ UserPool_Id pool,
               ''Creating Resource Server with custom scopes...'',
               check_mark @ '' Resource Server created with ID: ''
                 @ ResourceServer_Identifier rs,
               ''Creating M2M App Client...'',
               check_mark @ '' M2M Client created with ID: '' @ UserPoolClient_ClientId client,
               ''Creating User Pool Domain: '' @ (''m2m-domain-'' @ last5 (str_int (time_time e))),
               cross_mark @ '' AWS Error: '' @ code @ '' - '' @ msg]\<rparr>)"
    by (simp add: create_m2m_pool_def m2m_steps_def m2m_eqs seq_defs provider_call_def
      write_file_def)
qed

theorem create_m2m_pool_aborts_on_domain_error_witness:
  "boto3_client env_domain_limit ''cognito-idp'' REGION = Inr client_domain_limit
   \<and> api_create_user_pool_domain client_domain_limit
        (''m2m-domain-'' @ last5 (str_int (time_time env_domain_limit))) ''us-west-2_aBcD12345''
       = Inl (ClientError ''LimitExceededException'' ''Too many domains''
                ''An error occurred (LimitExceededException) when calling the CreateUserPoolDomain operation: Too many domains'')
   \<and> ''LimitExceededException'' \<noteq> ''InvalidParameterException''
   \<and> file_write env_domain_limit ''pool.json'' = Written
   \<and> file_write env_domain_limit ''resource_server.json'' = Written
   \<and> file_write env_domain_limit ''m2m_client.json'' = Written
   \<and> fst (create_m2m_pool env_domain_limit empty_state) = Inr None
   \<and> files (snd (create_m2m_pool env_domain_limit empty_state)) ''m2m_credentials.json'' = None"
  using create_m2m_pool_aborts_on_domain_error [where e = env_domain_limit and c = client_domain_limit
      and pool = "UserPoolResponse ''us-west-2_aBcD12345''"
      and rs = "ResourceServerResponse ''https://api.myapp.com''"
      and client = "UserPoolClientResponse ''4h57client'' ''s3cr3t''"
      and s = empty_state
      and code = "''LimitExceededException''" and msg = "''Too many domains''"
      and report = "''An error occurred (LimitExceededException) when calling the CreateUserPoolDomain operation: Too many domains''"]
  by (simp add: env_domain_limit_def client_domain_limit_def empty_state_def
      sample_env_def sample_client_def REGION_def POOL_NAME_def RESOURCE_SERVER_IDENTIFIER_def
      RESOURCE_SERVER_NAME_def CLIENT_NAME_def last5_def str_int_def str_nat.simps
      digit_char_def)







text \<open>
  Claim C8. In every successful run of \<open>create_m2m_pool\<close> the \<open>ClientId\<close> and the
  \<open>ClientSecret\<close> of the response to \<open>create_user_pool_client\<close> are, unchanged, the
  \<open>clientId\<close> and \<open>clientSecret\<close> of the document written to \<open>m2m_credentials.json\<close> and the
  \<open>client_id\<close> and \<open>client_secret\<close> of the returned record.
\<close>

theorem create_m2m_pool_client_credentials:
  assumes "fst (create_m2m_pool e s) = Inr (Some r)"
  shows "\<exists>c pool client credentials.
     boto3_client e ''cognito-idp'' REGION = Inr c
     \<and> api_create_user_pool c POOL_NAME 8 = Inr pool
     \<and> api_create_user_pool_client c (UserPool_Id pool) CLIENT_NAME True
           [''ALLOW_ADMIN_USER_PASSWORD_AUTH'']
           (Some ([''COGNITO''], [''client_credentials''],
                  [RESOURCE_SERVER_IDENTIFIER @ ''/read'',
                   RESOURCE_SERVER_IDENTIFIER @ ''/write'',
                   RESOURCE_SERVER_IDENTIFIER @ ''/admin''], True)) = Inr client
     \<and> files (snd (create_m2m_pool e s)) ''m2m_credentials.json''
          = Some (JsonDocument credentials)
     \<and> dict_get credentials ''clientId'' = Some (Str (UserPoolClient_ClientId client))
     \<and> dict_get credentials ''clientSecret''
          = Some (Str (UserPoolClient_ClientSecret client))
     \<and> dict_get r ''client_id'' = Some (Str (UserPoolClient_ClientId client))
     \<and> dict_get r ''client_secret'' = Some (Str (UserPoolClient_ClientSecret client))"
  using create_m2m_pool_InrD [OF assms]
  by auto

theorem create_m2m_pool_client_credentials_witness:
  "fst (create_m2m_pool sample_env empty_state) = Inr (Some sample_m2m_result)
   \<and> (\<exists>c pool client credentials.
     boto3_client sample_env ''cognito-idp'' REGION = Inr c
     \<and> api_create_user_pool c POOL_NAME 8 = Inr pool
     \<and> api_create_user_pool_client c (UserPool_Id pool) CLIENT_NAME True
           [''ALLOW_ADMIN_USER_PASSWORD_AUTH'']
           (Some ([''COGNITO''], [''client_credentials''],
                  [RESOURCE_SERVER_IDENTIFIER @ ''/read'',
                   RESOURCE_SERVER_IDENTIFIER @ ''/write'',
                   RESOURCE_SERVER_IDENTIFIER @ ''/admin''], True)) = Inr client
     \<and> files (snd (create_m2m_pool sample_env empty_state)) ''m2m_credentials.json''
          = Some (JsonDocument credentials)
     \<and> dict_get credentials ''clientId'' = Some (Str (UserPoolClient_ClientId client))
     \<and> dict_get credentials ''clientSecret''
          = Some (Str (UserPoolClient_ClientSecret client))
     \<and> dict_get sample_m2m_result ''client_id'' = Some (Str (UserPoolClient_ClientId client))
     \<and> dict_get sample_m2m_result ''client_secret'' = Some (Str (UserPoolClient_ClientSecret client)))"
  using sample_m2m_run create_m2m_pool_client_credentials [OF sample_m2m_run]
  by (rule conjI)

end
